theory Spec2Isabelle
  imports Complex_Main "HOL-Library.Sublist" "HOL-Library.Log_Nat"
begin

section \<open>Python values\<close>

text \<open>
  The feature dictionary of MixLens is an ordinary Python \<open>dict\<close>: nothing types its
  entries, so the model keeps the values dynamic. A float is either a finite number, given
  by the rational it denotes (every finite double is one), or one of the special values of
  IEEE arithmetic. Comparison and fixed-point formatting of a float are exact operations on
  that rational, so they are modelled without loss; the products \<open>harmonic_ratio*100\<close>
  and \<open>total_checks * 0.7\<close> are taken exactly, without the rounding of the last bit.
  Strings are UTF-8 byte sequences.
\<close>

text \<open>Exceptions. \<open>LibraryError\<close> stands for the exception classes of the libraries,
  by name.\<close>

text \<open>Modelled from the spec: \<open>DecodeError\<close>, the typed error of the specification that
  carries its cause. The repository defines no such class and never raises one; the
  constructor is here so that its absence can be stated.\<close>

datatype exc =
    TypeError
  | ValueError
  | AttributeError
  | OverflowError
  | IndexError
  | ZeroDivisionError
  | LibraryError string
  | DecodeError exc

datatype pyfloat = Finite rat | NegZero | PosInf | NegInf | NaN

datatype pyval =
    PyNone
  | PyInt int
  | PyFloat pyfloat
  | PyStr string
  | PyDict "string \<Rightarrow> pyval option"

type_synonym pydict = "string \<Rightarrow> pyval option"

definition bind_exc :: "exc + 'a \<Rightarrow> ('a \<Rightarrow> exc + 'b) \<Rightarrow> exc + 'b" where
  "bind_exc m f = (case m of Inl e \<Rightarrow> Inl e | Inr x \<Rightarrow> f x)"

text \<open>\<open>d.get(k, default)\<close>\<close>

definition dict_get :: "pydict \<Rightarrow> string \<Rightarrow> pyval \<Rightarrow> pyval" where
  "dict_get d k dflt = (case d k of None \<Rightarrow> dflt | Some v \<Rightarrow> v)"

text \<open>Truth value of an object, as \<open>not extracted\<close> tests it.\<close>

fun float_is_zero :: "pyfloat \<Rightarrow> bool" where
  "float_is_zero (Finite r) = (r = 0)"
| "float_is_zero NegZero = True"
| "float_is_zero PosInf = False"
| "float_is_zero NegInf = False"
| "float_is_zero NaN = False"

fun truthy :: "pyval \<Rightarrow> bool" where
  "truthy PyNone = False"
| "truthy (PyInt i) = (i \<noteq> 0)"
| "truthy (PyFloat f) = (\<not> float_is_zero f)"
| "truthy (PyStr s) = (s \<noteq> [])"
| "truthy (PyDict d) = (d \<noteq> Map.empty)"

text \<open>Attribute lookup \<open>extracted.get\<close>: only a dict has the method.\<close>

fun get_method :: "pyval \<Rightarrow> exc + pydict" where
  "get_method (PyDict d) = Inr d"
| "get_method PyNone = Inl AttributeError"
| "get_method (PyInt i) = Inl AttributeError"
| "get_method (PyFloat f) = Inl AttributeError"
| "get_method (PyStr s) = Inl AttributeError"

subsection \<open>Comparison with a finite constant\<close>

fun float_lt :: "pyfloat \<Rightarrow> rat \<Rightarrow> bool" where
  "float_lt (Finite r) t = (r < t)"
| "float_lt NegZero t = (0 < t)"
| "float_lt PosInf t = False"
| "float_lt NegInf t = True"
| "float_lt NaN t = False"

fun float_gt :: "pyfloat \<Rightarrow> rat \<Rightarrow> bool" where
  "float_gt (Finite r) t = (t < r)"
| "float_gt NegZero t = (t < 0)"
| "float_gt PosInf t = True"
| "float_gt NegInf t = False"
| "float_gt NaN t = False"

text \<open>\<open>v < t\<close> and \<open>v > t\<close> for a numeric constant \<open>t\<close>: numbers compare exactly,
  anything else raises \<open>TypeError\<close>.\<close>

fun py_lt :: "pyval \<Rightarrow> rat \<Rightarrow> exc + bool" where
  "py_lt (PyInt i) t = Inr (of_int i < t)"
| "py_lt (PyFloat f) t = Inr (float_lt f t)"
| "py_lt PyNone t = Inl TypeError"
| "py_lt (PyStr s) t = Inl TypeError"
| "py_lt (PyDict d) t = Inl TypeError"

fun py_gt :: "pyval \<Rightarrow> rat \<Rightarrow> exc + bool" where
  "py_gt (PyInt i) t = Inr (t < of_int i)"
| "py_gt (PyFloat f) t = Inr (float_gt f t)"
| "py_gt PyNone t = Inl TypeError"
| "py_gt (PyStr s) t = Inl TypeError"
| "py_gt (PyDict d) t = Inl TypeError"

subsection \<open>Fixed-point formatting\<close>

definition digit_char :: "nat \<Rightarrow> char" where
  "digit_char n = ''0123456789'' ! (n mod 10)"

fun digits :: "nat \<Rightarrow> string" where
  "digits n = (if n < 10 then [digit_char n] else digits (n div 10) @ [digit_char (n mod 10)])"

declare digits.simps [simp del]

definition pad_zeros :: "nat \<Rightarrow> string \<Rightarrow> string" where
  "pad_zeros p s = replicate (p - length s) (CHR ''0'') @ s"

text \<open>Rounding to the nearest integer, ties to the even one.\<close>

definition round_half_even :: "rat \<Rightarrow> int" where
  "round_half_even x =
     (let f = \<lfloor>x\<rfloor>; d = x - of_int f
      in if d < 1 / 2 then f else if 1 / 2 < d then f + 1 else if even f then f else f + 1)"

text \<open>Rounding to \<open>p\<close> decimal places, ties to even, on the magnitude.\<close>

definition round_decimal :: "nat \<Rightarrow> rat \<Rightarrow> rat" where
  "round_decimal p x =
     (if x < 0 then - (of_int (round_half_even (- x * 10 ^ p)) / 10 ^ p)
      else of_int (round_half_even (x * 10 ^ p)) / 10 ^ p)"

text \<open>The digits of a non-negative number with \<open>p\<close> places after the point; no point
  is printed when \<open>p = 0\<close>.\<close>

definition fixed_str :: "nat \<Rightarrow> rat \<Rightarrow> string" where
  "fixed_str p a =
     (let n = nat (round_half_even (a * 10 ^ p)); ip = n div 10 ^ p; fp = n mod 10 ^ p
      in digits ip @ (if p = 0 then [] else ''.'' @ pad_zeros p (digits fp)))"

text \<open>\<open>format(x, '.pf')\<close> for a float \<open>x\<close>. The sign is the sign of \<open>x\<close>, also when
  the digits round to zero.\<close>

fun format_f :: "nat \<Rightarrow> pyfloat \<Rightarrow> string" where
  "format_f p (Finite r) = (if r < 0 then ''-'' @ fixed_str p (- r) else fixed_str p r)"
| "format_f p NegZero = ''-'' @ fixed_str p 0"
| "format_f p PosInf = ''inf''"
| "format_f p NegInf = ''-inf''"
| "format_f p NaN = ''nan''"

text \<open>An int is converted to a float before it is formatted: rounded to 53 significant
  bits, ties to even, and \<open>OverflowError\<close> beyond the range of a double.\<close>

definition int_to_float :: "int \<Rightarrow> exc + pyfloat" where
  "int_to_float i =
     (let a = \<bar>i\<bar>; n = nat (bitlen a)
      in if n \<le> 53 then Inr (Finite (of_int i))
         else let sh = n - 53; q = a div 2 ^ sh; r = a mod 2 ^ sh; h = 2 ^ (sh - 1);
                  q' = (if h < r \<or> (r = h \<and> odd q) then q + 1 else q);
                  m = q' * 2 ^ sh
              in if 2 ^ 1024 \<le> m then Inl OverflowError
                 else Inr (Finite (of_int (if i < 0 then - m else m))))"

fun py_format_f :: "nat \<Rightarrow> pyval \<Rightarrow> exc + string" where
  "py_format_f p (PyInt i) = bind_exc (int_to_float i) (\<lambda>f. Inr (format_f p f))"
| "py_format_f p (PyFloat f) = Inr (format_f p f)"
| "py_format_f p (PyStr s) = Inl ValueError"
| "py_format_f p PyNone = Inl TypeError"
| "py_format_f p (PyDict d) = Inl TypeError"

text \<open>\<open>v * 100\<close>\<close>

fun float_mul100 :: "pyfloat \<Rightarrow> pyfloat" where
  "float_mul100 (Finite r) = Finite (r * 100)"
| "float_mul100 NegZero = NegZero"
| "float_mul100 PosInf = PosInf"
| "float_mul100 NegInf = NegInf"
| "float_mul100 NaN = NaN"

fun py_mul100 :: "pyval \<Rightarrow> exc + pyval" where
  "py_mul100 (PyInt i) = Inr (PyInt (i * 100))"
| "py_mul100 (PyFloat f) = Inr (PyFloat (float_mul100 f))"
| "py_mul100 (PyStr s) = Inr (PyStr (concat (replicate 100 s)))"
| "py_mul100 PyNone = Inl TypeError"
| "py_mul100 (PyDict d) = Inl TypeError"

text \<open>\<open>str(v)\<close>, as an f-string field without a format code renders \<open>v\<close>. A string
  renders as itself. The rendering of the other values (the shortest round-trip digits of a
  float, the items of a dict) is a primitive of the language; it is the parameter
  \<open>repr\<close>.\<close>

fun py_str :: "(pyval \<Rightarrow> string) \<Rightarrow> pyval \<Rightarrow> string" where
  "py_str repr (PyStr s) = s"
| "py_str repr PyNone = repr PyNone"
| "py_str repr (PyInt i) = repr (PyInt i)"
| "py_str repr (PyFloat f) = repr (PyFloat f)"
| "py_str repr (PyDict d) = repr (PyDict d)"

section \<open>The suggestion engine\<close>

subsection \<open>Thresholds\<close>

record thresholds =
  rms_too_quiet :: rat
  rms_too_loud :: rat
  dynamic_range_low :: rat
  dynamic_range_high :: rat
  spectral_centroid_low :: rat
  spectral_centroid_high :: rat
  spectral_rolloff_low :: rat
  spectral_rolloff_high :: rat
  harmonic_ratio_low :: rat
  percussive_ratio_high :: rat

text \<open>\<open>SuggestionEngine.__init__\<close>\<close>

definition init :: thresholds where
  "init = \<lparr> rms_too_quiet = - 20, rms_too_loud = - 6,
            dynamic_range_low = 6, dynamic_range_high = 20,
            spectral_centroid_low = 2000, spectral_centroid_high = 4000,
            spectral_rolloff_low = 60, spectral_rolloff_high = 90,
            harmonic_ratio_low = 1 / 2, percussive_ratio_high = 3 / 5 \<rparr>"

subsection \<open>Tier markers\<close>

text \<open>The markers that open an entry, in UTF-8: U+2705, U+1F50A, U+1F39A U+FE0F,
  U+1F3B5, U+1F4CA, U+1F3B8, U+23F1 U+FE0F, U+1F3B9, U+1F389 and U+1F4A1.\<close>

definition check_mark :: string where
  "check_mark = [CHR 0xE2, CHR 0x9C, CHR 0x85]"

definition speaker_mark :: string where
  "speaker_mark = [CHR 0xF0, CHR 0x9F, CHR 0x94, CHR 0x8A]"

definition slider_mark :: string where
  "slider_mark = [CHR 0xF0, CHR 0x9F, CHR 0x8E, CHR 0x9A, CHR 0xEF, CHR 0xB8, CHR 0x8F]"

definition note_mark :: string where
  "note_mark = [CHR 0xF0, CHR 0x9F, CHR 0x8E, CHR 0xB5]"

definition chart_mark :: string where
  "chart_mark = [CHR 0xF0, CHR 0x9F, CHR 0x93, CHR 0x8A]"

definition guitar_mark :: string where
  "guitar_mark = [CHR 0xF0, CHR 0x9F, CHR 0x8E, CHR 0xB8]"

definition stopwatch_mark :: string where
  "stopwatch_mark = [CHR 0xE2, CHR 0x8F, CHR 0xB1, CHR 0xEF, CHR 0xB8, CHR 0x8F]"

definition piano_mark :: string where
  "piano_mark = [CHR 0xF0, CHR 0x9F, CHR 0x8E, CHR 0xB9]"

definition party_mark :: string where
  "party_mark = [CHR 0xF0, CHR 0x9F, CHR 0x8E, CHR 0x89]"

definition bulb_mark :: string where
  "bulb_mark = [CHR 0xF0, CHR 0x9F, CHR 0x92, CHR 0xA1]"

subsection \<open>Message templates\<close>

text \<open>The f-strings of \<open>generate\<close>, each a function of the numbers already formatted.\<close>

definition unable_message :: string where
  "unable_message = ''Unable to extract features. Please check audio file.''"

definition loudness_quiet :: "string \<Rightarrow> string" where
  "loudness_quiet r = speaker_mark @ '' **Loudness**: Track is quiet (RMS: '' @ r @
     '' dB). Consider normalizing or increasing gain to improve perceived loudness.''"

definition loudness_loud :: "string \<Rightarrow> string" where
  "loudness_loud r = speaker_mark @ '' **Loudness**: Track may be too loud (RMS: '' @ r @
     '' dB). Watch for clipping and consider reducing gain slightly.''"

definition loudness_good :: "string \<Rightarrow> string \<Rightarrow> string" where
  "loudness_good r l = check_mark @ '' **Loudness**: Good level (RMS: '' @ r @
     '' dB, LUFS approx: '' @ l @
     ''). Track has appropriate loudness for modern production.''"

definition range_compressed :: "string \<Rightarrow> string" where
  "range_compressed r = slider_mark @ '' **Dynamic Range**: Very compressed (Range: '' @ r @
     '' dB). Consider easing compression to preserve more natural dynamics and musicality.''"

definition range_wide :: "string \<Rightarrow> string" where
  "range_wide r = slider_mark @ '' **Dynamic Range**: Wide dynamics (Range: '' @ r @
     '' dB). Good for dynamic music, but ensure consistency for streaming platforms.''"

definition range_balanced :: "string \<Rightarrow> string" where
  "range_balanced r = check_mark @ '' **Dynamic Range**: Balanced (Range: '' @ r @
     '' dB). Good balance between dynamics and consistency.''"

definition balance_low :: "string \<Rightarrow> string" where
  "balance_low r = note_mark @ '' **Frequency Balance**: Low-end heavy (Centroid: '' @ r @
     '' Hz). Mix may lack clarity in the mid/high frequencies. Consider boosting presence or reducing low-end.''"

definition balance_bright :: "string \<Rightarrow> string" where
  "balance_bright r = note_mark @ '' **Frequency Balance**: Bright mix (Centroid: '' @ r @
     '' Hz). High frequencies are prominent. Watch for harshness or listener fatigue.''"

definition balance_good :: "string \<Rightarrow> string" where
  "balance_good r = check_mark @ '' **Frequency Balance**: Well-balanced (Centroid: '' @ r @
     '' Hz). Good distribution across frequency spectrum.''"

definition highs_limited :: "string \<Rightarrow> string" where
  "highs_limited r = chart_mark @ '' **High-Frequency Content**: Limited high-end (Rolloff: '' @ r @
     ''%). Mix may sound dull. Consider adding air or reducing low-pass filtering.''"

definition highs_extended :: "string \<Rightarrow> string" where
  "highs_extended r = chart_mark @ '' **High-Frequency Content**: Extended high-end (Rolloff: '' @ r @
     ''%). Very bright mix. Ensure high frequencies are musical, not harsh.''"

definition highs_good :: "string \<Rightarrow> string" where
  "highs_good r = check_mark @ '' **High-Frequency Content**: Appropriate (Rolloff: '' @ r @
     ''%). Good high-frequency extension.''"

definition harmonic_low :: "string \<Rightarrow> string" where
  "harmonic_low r = guitar_mark @ '' **Harmonic Content**: Low harmonic content ('' @ r @
     ''%). Track is more percussive/noisy. If intended, great! If not, check for distortion or noise issues.''"

definition harmonic_good :: "string \<Rightarrow> string" where
  "harmonic_good r = check_mark @ '' **Harmonic Content**: Good harmonic presence ('' @ r @
     ''%). Musical elements are well-represented.''"

definition tempo_slow :: "string \<Rightarrow> string" where
  "tempo_slow r = stopwatch_mark @ '' **Tempo**: Slow tempo ('' @ r @
     '' BPM). Great for ambient or ballads. Ensure timing feels intentional.''"

definition tempo_fast :: "string \<Rightarrow> string" where
  "tempo_fast r = stopwatch_mark @ '' **Tempo**: Fast tempo ('' @ r @
     '' BPM). High energy track! Ensure clarity isn'' @ [CHR 0x27] @ ''t lost at this pace.''"

definition tempo_good :: "string \<Rightarrow> string" where
  "tempo_good r = check_mark @ '' **Tempo**: '' @ r @
     '' BPM detected. Tempo is well-suited for most genres.''"

definition key_entry :: "string \<Rightarrow> string" where
  "key_entry k = piano_mark @ '' **Key Detection**: Estimated key is '' @ k @
     ''. Use this as a reference for harmonic mixing or adding complementary elements.''"

definition positive_banner :: string where
  "positive_banner = party_mark @
     '' **Overall**: Your mix shows strong technical qualities! Most parameters are within optimal ranges.''"

definition improvement_banner :: string where
  "improvement_banner = bulb_mark @
     '' **Overall**: Your mix has room for improvement in several areas. Focus on the suggestions below to enhance production quality.''"

subsection \<open>The six judged checks and the key entry\<close>

text \<open>1. Loudness/RMS analysis\<close>

definition loudness :: "thresholds \<Rightarrow> pydict \<Rightarrow> exc + string" where
  "loudness self extracted =
     (let rms_db = dict_get extracted ''rms_db'' (PyInt 0);
          lufs_approx = dict_get extracted ''lufs_approx'' (PyInt 0)
      in bind_exc (py_lt rms_db (rms_too_quiet self)) (\<lambda>quiet.
           if quiet then
             bind_exc (py_format_f 1 rms_db) (\<lambda>r. Inr (loudness_quiet r))
           else bind_exc (py_gt rms_db (rms_too_loud self)) (\<lambda>loud.
             if loud then
               bind_exc (py_format_f 1 rms_db) (\<lambda>r. Inr (loudness_loud r))
             else
               bind_exc (py_format_f 1 rms_db) (\<lambda>r.
               bind_exc (py_format_f 1 lufs_approx) (\<lambda>l. Inr (loudness_good r l))))))"

text \<open>2. Dynamic Range analysis\<close>

definition dynamic_range :: "thresholds \<Rightarrow> pydict \<Rightarrow> exc + string" where
  "dynamic_range self extracted =
     (let dynamic_range = dict_get extracted ''dynamic_range_db'' (PyInt 0)
      in bind_exc (py_lt dynamic_range (dynamic_range_low self)) (\<lambda>low.
           if low then
             bind_exc (py_format_f 1 dynamic_range) (\<lambda>r. Inr (range_compressed r))
           else bind_exc (py_gt dynamic_range (dynamic_range_high self)) (\<lambda>high.
             if high then
               bind_exc (py_format_f 1 dynamic_range) (\<lambda>r. Inr (range_wide r))
             else
               bind_exc (py_format_f 1 dynamic_range) (\<lambda>r. Inr (range_balanced r)))))"

text \<open>3. Spectral Centroid (brightness)\<close>

definition frequency_balance :: "thresholds \<Rightarrow> pydict \<Rightarrow> exc + string" where
  "frequency_balance self extracted =
     (let spectral_centroid = dict_get extracted ''spectral_centroid_hz'' (PyInt 0)
      in bind_exc (py_lt spectral_centroid (spectral_centroid_low self)) (\<lambda>low.
           if low then
             bind_exc (py_format_f 0 spectral_centroid) (\<lambda>r. Inr (balance_low r))
           else bind_exc (py_gt spectral_centroid (spectral_centroid_high self)) (\<lambda>high.
             if high then
               bind_exc (py_format_f 0 spectral_centroid) (\<lambda>r. Inr (balance_bright r))
             else
               bind_exc (py_format_f 0 spectral_centroid) (\<lambda>r. Inr (balance_good r)))))"

text \<open>4. Spectral Rolloff (high-frequency content)\<close>

definition high_frequency_content :: "thresholds \<Rightarrow> pydict \<Rightarrow> exc + string" where
  "high_frequency_content self extracted =
     (let spectral_rolloff = dict_get extracted ''spectral_rolloff_percent'' (PyInt 0)
      in bind_exc (py_lt spectral_rolloff (spectral_rolloff_low self)) (\<lambda>low.
           if low then
             bind_exc (py_format_f 1 spectral_rolloff) (\<lambda>r. Inr (highs_limited r))
           else bind_exc (py_gt spectral_rolloff (spectral_rolloff_high self)) (\<lambda>high.
             if high then
               bind_exc (py_format_f 1 spectral_rolloff) (\<lambda>r. Inr (highs_extended r))
             else
               bind_exc (py_format_f 1 spectral_rolloff) (\<lambda>r. Inr (highs_good r)))))"

text \<open>5. Harmonic vs Percussive content. \<open>percussive_ratio\<close> is fetched and not used.\<close>

definition harmonic_content :: "thresholds \<Rightarrow> pydict \<Rightarrow> exc + string" where
  "harmonic_content self extracted =
     (let harmonic_ratio = dict_get extracted ''harmonic_ratio'' (PyInt 0);
          percussive_ratio = dict_get extracted ''percussive_ratio'' (PyInt 0)
      in bind_exc (py_lt harmonic_ratio (harmonic_ratio_low self)) (\<lambda>low.
           if low then
             bind_exc (py_mul100 harmonic_ratio) (\<lambda>pct.
             bind_exc (py_format_f 1 pct) (\<lambda>r. Inr (harmonic_low r)))
           else
             bind_exc (py_mul100 harmonic_ratio) (\<lambda>pct.
             bind_exc (py_format_f 1 pct) (\<lambda>r. Inr (harmonic_good r)))))"

text \<open>6. Tempo analysis\<close>

definition tempo_analysis :: "pydict \<Rightarrow> exc + string" where
  "tempo_analysis extracted =
     (let tempo = dict_get extracted ''tempo_bpm'' (PyInt 0)
      in bind_exc (py_lt tempo 60) (\<lambda>slow.
           if slow then
             bind_exc (py_format_f 1 tempo) (\<lambda>r. Inr (tempo_slow r))
           else bind_exc (py_gt tempo 180) (\<lambda>fast.
             if fast then
               bind_exc (py_format_f 1 tempo) (\<lambda>r. Inr (tempo_fast r))
             else
               bind_exc (py_format_f 1 tempo) (\<lambda>r. Inr (tempo_good r)))))"

text \<open>7. Key detection\<close>

definition key_detection :: "(pyval \<Rightarrow> string) \<Rightarrow> pydict \<Rightarrow> string" where
  "key_detection repr extracted =
     (let estimated_key = dict_get extracted ''estimated_key'' (PyStr ''Unknown'')
      in key_entry (py_str repr estimated_key))"

text \<open>8. Overall summary. \<open>s.startswith\<close> compares code points; on UTF-8 text that is
  the prefix order of the bytes. The double \<open>7 * 0.7\<close> is 4.8999999999999995; an integer
  count is at least that exactly when it is at least the exact product 4.9.\<close>

definition overall_summary :: "string list \<Rightarrow> string list" where
  "overall_summary suggestions =
     (let suggestion_count = length (filter (prefix check_mark) suggestions);
          total_checks = (7 :: rat)
      in if total_checks * (7 / 10) \<le> of_nat suggestion_count
         then positive_banner # suggestions
         else improvement_banner # suggestions)"

subsection \<open>\<open>SuggestionEngine.generate\<close>\<close>

definition generate :: "(pyval \<Rightarrow> string) \<Rightarrow> thresholds \<Rightarrow> pydict \<Rightarrow> exc + string list" where
  "generate repr self features =
     (let extracted = dict_get features ''extracted_features'' (PyDict Map.empty)
      in if \<not> truthy extracted then Inr [unable_message]
         else
           bind_exc (get_method extracted) (\<lambda>e.
           bind_exc (loudness self e) (\<lambda>s1.
           bind_exc (dynamic_range self e) (\<lambda>s2.
           bind_exc (frequency_balance self e) (\<lambda>s3.
           bind_exc (high_frequency_content self e) (\<lambda>s4.
           bind_exc (harmonic_content self e) (\<lambda>s5.
           bind_exc (tempo_analysis e) (\<lambda>s6.
             Inr (overall_summary [s1, s2, s3, s4, s5, s6, key_detection repr e])))))))))"

section \<open>The feature extractor\<close>

subsection \<open>Float arithmetic\<close>

text \<open>
  The arithmetic of the extractor on floats, with the special values of IEEE arithmetic
  written out. On finite operands the result is the exact one: the rounding of the last
  bit, overflow and underflow are not modelled, and a float literal stands for its decimal
  value.
\<close>

fun f_val :: "pyfloat \<Rightarrow> rat" where
  "f_val (Finite r) = r"
| "f_val NegZero = 0"
| "f_val PosInf = 0"
| "f_val NegInf = 0"
| "f_val NaN = 0"

fun f_sign :: "pyfloat \<Rightarrow> bool" where
  "f_sign (Finite r) = (r < 0)"
| "f_sign NegZero = True"
| "f_sign PosInf = False"
| "f_sign NegInf = True"
| "f_sign NaN = False"

fun is_inf :: "pyfloat \<Rightarrow> bool" where
  "is_inf PosInf = True"
| "is_inf NegInf = True"
| "is_inf (Finite r) = False"
| "is_inf NegZero = False"
| "is_inf NaN = False"

fun is_nan :: "pyfloat \<Rightarrow> bool" where
  "is_nan NaN = True"
| "is_nan (Finite r) = False"
| "is_nan NegZero = False"
| "is_nan PosInf = False"
| "is_nan NegInf = False"

definition signed_inf :: "bool \<Rightarrow> pyfloat" where
  "signed_inf neg = (if neg then NegInf else PosInf)"

definition signed_zero :: "bool \<Rightarrow> pyfloat" where
  "signed_zero neg = (if neg then NegZero else Finite 0)"

fun f_neg :: "pyfloat \<Rightarrow> pyfloat" where
  "f_neg (Finite r) = (if r = 0 then NegZero else Finite (- r))"
| "f_neg NegZero = Finite 0"
| "f_neg PosInf = NegInf"
| "f_neg NegInf = PosInf"
| "f_neg NaN = NaN"

fun f_abs :: "pyfloat \<Rightarrow> pyfloat" where
  "f_abs (Finite r) = Finite \<bar>r\<bar>"
| "f_abs NegZero = Finite 0"
| "f_abs PosInf = PosInf"
| "f_abs NegInf = PosInf"
| "f_abs NaN = NaN"

definition f_add :: "pyfloat \<Rightarrow> pyfloat \<Rightarrow> pyfloat" where
  "f_add a b =
     (if is_nan a \<or> is_nan b then NaN
      else if is_inf a \<and> is_inf b then (if f_sign a = f_sign b then a else NaN)
      else if is_inf a then a
      else if is_inf b then b
      else if a = NegZero \<and> b = NegZero then NegZero
      else Finite (f_val a + f_val b))"

definition f_sub :: "pyfloat \<Rightarrow> pyfloat \<Rightarrow> pyfloat" where
  "f_sub a b = f_add a (f_neg b)"

definition f_mul :: "pyfloat \<Rightarrow> pyfloat \<Rightarrow> pyfloat" where
  "f_mul a b =
     (if is_nan a \<or> is_nan b then NaN
      else if (is_inf a \<and> float_is_zero b) \<or> (float_is_zero a \<and> is_inf b) then NaN
      else if is_inf a \<or> is_inf b then signed_inf (f_sign a \<noteq> f_sign b)
      else if float_is_zero a \<or> float_is_zero b then signed_zero (f_sign a \<noteq> f_sign b)
      else Finite (f_val a * f_val b))"

text \<open>Division of numpy scalars: a zero divisor gives an infinity or NaN.\<close>

definition f_div :: "pyfloat \<Rightarrow> pyfloat \<Rightarrow> pyfloat" where
  "f_div a b =
     (if is_nan a \<or> is_nan b then NaN
      else if (is_inf a \<and> is_inf b) \<or> (float_is_zero a \<and> float_is_zero b) then NaN
      else if is_inf a \<or> float_is_zero b then signed_inf (f_sign a \<noteq> f_sign b)
      else if float_is_zero a \<or> is_inf b then signed_zero (f_sign a \<noteq> f_sign b)
      else Finite (f_val a / f_val b))"

text \<open>Division of Python floats: a zero divisor raises.\<close>

definition py_truediv :: "pyfloat \<Rightarrow> pyfloat \<Rightarrow> exc + pyfloat" where
  "py_truediv a b = (if float_is_zero b then Inl ZeroDivisionError else Inr (f_div a b))"

text \<open>\<open>m / n\<close> on ints.\<close>

definition int_truediv :: "nat \<Rightarrow> nat \<Rightarrow> exc + pyfloat" where
  "int_truediv m n = (if n = 0 then Inl ZeroDivisionError else Inr (Finite (of_nat m / of_nat n)))"

definition f_less :: "pyfloat \<Rightarrow> pyfloat \<Rightarrow> bool" where
  "f_less a b =
     (if is_nan a \<or> is_nan b then False
      else if a = NegInf then b \<noteq> NegInf
      else if b = NegInf then False
      else if a = PosInf then False
      else if b = PosInf then True
      else f_val a < f_val b)"

text \<open>\<open>round(x, ndigits)\<close> on a float: the nearest decimal with that many places, ties
  to even, the double nearest to that decimal being identified with it; a negative value
  that rounds to zero keeps its sign; NaN and the infinities are returned as they are.\<close>

fun py_round :: "nat \<Rightarrow> pyfloat \<Rightarrow> pyfloat" where
  "py_round p (Finite r) =
     (if round_decimal p r = 0 \<and> r < 0 then NegZero else Finite (round_decimal p r))"
| "py_round p NegZero = NegZero"
| "py_round p PosInf = PosInf"
| "py_round p NegInf = NegInf"
| "py_round p NaN = NaN"

subsection \<open>numpy reductions\<close>

definition np_sum :: "pyfloat list \<Rightarrow> pyfloat" where
  "np_sum xs = foldl f_add (Finite 0) xs"

text \<open>\<open>np.mean\<close> of a two-dimensional array, over all entries and along axis 1. An
  empty array gives NaN.\<close>

definition np_mean :: "pyfloat list list \<Rightarrow> pyfloat" where
  "np_mean m = f_div (np_sum (concat m)) (Finite (of_nat (length (concat m))))"

definition np_mean_axis1 :: "pyfloat list list \<Rightarrow> pyfloat list" where
  "np_mean_axis1 m = map (\<lambda>row. f_div (np_sum row) (Finite (of_nat (length row)))) m"

text \<open>\<open>np.max\<close>: NaN if an entry is NaN; an empty array raises.\<close>

definition f_max :: "pyfloat \<Rightarrow> pyfloat \<Rightarrow> pyfloat" where
  "f_max a b = (if is_nan a \<or> is_nan b then NaN else if f_less a b then b else a)"

fun np_max :: "pyfloat list \<Rightarrow> exc + pyfloat" where
  "np_max [] = Inl ValueError"
| "np_max (x # xs) = Inr (foldl f_max x xs)"

text \<open>\<open>np.argmax\<close>: the first index of the maximum, the first NaN counting as the
  maximum; an empty array raises.\<close>

fun argmax_from :: "pyfloat \<Rightarrow> nat \<Rightarrow> nat \<Rightarrow> pyfloat list \<Rightarrow> nat" where
  "argmax_from best bi i [] = bi"
| "argmax_from best bi i (x # xs) =
     (if \<not> is_nan best \<and> (is_nan x \<or> f_less best x)
      then argmax_from x i (Suc i) xs
      else argmax_from best bi (Suc i) xs)"

fun np_argmax :: "pyfloat list \<Rightarrow> exc + nat" where
  "np_argmax [] = Inl ValueError"
| "np_argmax (x # xs) = Inr (argmax_from x 0 1 xs)"

text \<open>\<open>xs[i]\<close> for an index that is not negative.\<close>

definition list_index :: "'a list \<Rightarrow> nat \<Rightarrow> exc + 'a" where
  "list_index xs i = (if i < length xs then Inr (xs ! i) else Inl IndexError)"

subsection \<open>The signal-processing library\<close>

text \<open>
  \<open>librosa\<close> and the logarithm of \<open>numpy\<close> are not part of the repository: they are
  parameters of the model. Every primitive either returns its value or raises. A waveform is
  the list of its samples, a feature a list of rows.
\<close>

record audio_lib =
  lib_load :: "string \<Rightarrow> nat \<Rightarrow> exc + (pyfloat list \<times> nat)"
  lib_beat_track :: "pyfloat list \<Rightarrow> nat \<Rightarrow> exc + (pyfloat \<times> nat list)"
  lib_chroma_stft :: "pyfloat list \<Rightarrow> nat \<Rightarrow> exc + pyfloat list list"
  lib_rms :: "pyfloat list \<Rightarrow> exc + pyfloat list list"
  lib_spectral_centroid :: "pyfloat list \<Rightarrow> nat \<Rightarrow> exc + pyfloat list list"
  lib_spectral_rolloff :: "pyfloat list \<Rightarrow> nat \<Rightarrow> exc + pyfloat list list"
  lib_zero_crossing_rate :: "pyfloat list \<Rightarrow> exc + pyfloat list list"
  lib_spectral_bandwidth :: "pyfloat list \<Rightarrow> nat \<Rightarrow> exc + pyfloat list list"
  lib_spectral_contrast :: "pyfloat list \<Rightarrow> nat \<Rightarrow> exc + pyfloat list list"
  lib_mfcc :: "pyfloat list \<Rightarrow> nat \<Rightarrow> nat \<Rightarrow> exc + pyfloat list list"
  lib_hpss :: "pyfloat list \<Rightarrow> exc + (pyfloat list \<times> pyfloat list)"
  lib_log10 :: "rat \<Rightarrow> pyfloat"

text \<open>\<open>np.log10\<close>: the library's value on a positive number, minus infinity at zero, NaN
  on a negative number.\<close>

fun np_log10 :: "audio_lib \<Rightarrow> pyfloat \<Rightarrow> pyfloat" where
  "np_log10 lib (Finite r) =
     (if r = 0 then NegInf else if r < 0 then NaN else lib_log10 lib r)"
| "np_log10 lib NegZero = NegInf"
| "np_log10 lib PosInf = PosInf"
| "np_log10 lib NegInf = NaN"
| "np_log10 lib NaN = NaN"

subsection \<open>\<open>FeatureExtractor\<close>\<close>

record feature_extractor =
  target_sr :: nat

text \<open>\<open>FeatureExtractor.__init__\<close> with its default argument\<close>

definition extractor_init :: feature_extractor where
  "extractor_init = \<lparr> target_sr = 22050 \<rparr>"

definition keys :: "string list" where
  "keys = [''C'', ''C#'', ''D'', ''D#'', ''E'', ''F'', ''F#'', ''G'', ''G#'', ''A'', ''A#'', ''B'']"

text \<open>\<open>FeatureExtractor.extract\<close> (\<open>extract\<close> is a keyword of the prover)\<close>

definition extract_features :: "audio_lib \<Rightarrow> feature_extractor \<Rightarrow> string \<Rightarrow> exc + pydict" where
  "extract_features lib self filepath =
     bind_exc (lib_load lib filepath (target_sr self)) (\<lambda>(y, sr).
     bind_exc (int_truediv (length y) sr) (\<lambda>duration.
     bind_exc (lib_beat_track lib y sr) (\<lambda>(tempo, beat_frames).
     bind_exc (lib_chroma_stft lib y sr) (\<lambda>chroma.
     let chroma_mean = np_mean_axis1 chroma in
     bind_exc (np_argmax chroma_mean) (\<lambda>key_idx.
     bind_exc (list_index keys key_idx) (\<lambda>estimated_key.
     bind_exc (lib_rms lib y) (\<lambda>rms.
     let rms_mean = np_mean rms;
         rms_db = f_mul (Finite 20) (np_log10 lib (f_add rms_mean (Finite (1 / 10 ^ 10))));
         lufs_approx = f_sub rms_db (Finite 23) in
     bind_exc (lib_spectral_centroid lib y sr) (\<lambda>spectral_centroid.
     let spectral_centroid_mean = np_mean spectral_centroid in
     bind_exc (lib_spectral_rolloff lib y sr) (\<lambda>spectral_rolloff.
     let spectral_rolloff_mean = np_mean spectral_rolloff in
     bind_exc (py_truediv spectral_rolloff_mean (Finite (of_nat sr / 2))) (\<lambda>nyquist_fraction.
     let spectral_rolloff_percent = f_mul nyquist_fraction (Finite 100) in
     bind_exc (lib_zero_crossing_rate lib y) (\<lambda>zcr.
     let zcr_mean = np_mean zcr in
     bind_exc (lib_spectral_bandwidth lib y sr) (\<lambda>spectral_bandwidth.
     let spectral_bandwidth_mean = np_mean spectral_bandwidth in
     bind_exc (np_max (map f_abs y)) (\<lambda>peak.
     let peak_db = f_mul (Finite 20) (np_log10 lib (f_add peak (Finite (1 / 10 ^ 10))));
         dynamic_range = f_sub peak_db rms_db in
     bind_exc (lib_spectral_contrast lib y sr) (\<lambda>spectral_contrast.
     let spectral_contrast_mean = np_mean spectral_contrast in
     bind_exc (lib_mfcc lib y sr 13) (\<lambda>mfccs.
     bind_exc (list_index mfccs 0) (\<lambda>mfccs_0.
     let mfcc_mean = np_mean [mfccs_0] in
     bind_exc (lib_hpss lib y) (\<lambda>(y_harmonic, y_percussive).
     let harmonic_ratio = f_div (np_sum (map f_abs y_harmonic))
                                (f_add (np_sum (map f_abs y)) (Finite (1 / 10 ^ 10)));
         percussive_ratio = f_div (np_sum (map f_abs y_percussive))
                                  (f_add (np_sum (map f_abs y)) (Finite (1 / 10 ^ 10)));
         extracted_features =
           [''tempo_bpm'' \<mapsto> PyFloat (py_round 2 tempo),
            ''estimated_key'' \<mapsto> PyStr estimated_key,
            ''rms_db'' \<mapsto> PyFloat (py_round 2 rms_db),
            ''lufs_approx'' \<mapsto> PyFloat (py_round 2 lufs_approx),
            ''spectral_centroid_hz'' \<mapsto> PyFloat (py_round 2 spectral_centroid_mean),
            ''spectral_rolloff_percent'' \<mapsto> PyFloat (py_round 2 spectral_rolloff_percent),
            ''zero_crossing_rate'' \<mapsto> PyFloat (py_round 4 zcr_mean),
            ''spectral_bandwidth_hz'' \<mapsto> PyFloat (py_round 2 spectral_bandwidth_mean),
            ''dynamic_range_db'' \<mapsto> PyFloat (py_round 2 dynamic_range),
            ''spectral_contrast'' \<mapsto> PyFloat (py_round 2 spectral_contrast_mean),
            ''mfcc_mean'' \<mapsto> PyFloat (py_round 2 mfcc_mean),
            ''harmonic_ratio'' \<mapsto> PyFloat (py_round 3 harmonic_ratio),
            ''percussive_ratio'' \<mapsto> PyFloat (py_round 3 percussive_ratio)]
     in Inr [''duration_seconds'' \<mapsto> PyFloat (py_round 2 duration),
             ''sample_rate'' \<mapsto> PyInt (int sr),
             ''extracted_features'' \<mapsto> PyDict extracted_features,
             ''audio_data'' \<mapsto> PyDict
                [''length_samples'' \<mapsto> PyInt (int (length y)),
                 ''peak_amplitude'' \<mapsto> PyFloat (py_round 4 peak),
                 ''peak_db'' \<mapsto> PyFloat (py_round 2 peak_db)]])))))))))))))))))"

section \<open>Descriptor sets and the favourable band\<close>

text \<open>A number the engine can compare and print: a float, or an int that a float holds
  exactly.\<close>

fun is_number :: "pyval \<Rightarrow> bool" where
  "is_number (PyInt i) = (\<bar>i\<bar> < 2 ^ 53)"
| "is_number (PyFloat f) = True"
| "is_number PyNone = False"
| "is_number (PyStr s) = False"
| "is_number (PyDict d) = False"

definition numeric_keys :: "string list" where
  "numeric_keys = [''rms_db'', ''lufs_approx'', ''dynamic_range_db'', ''spectral_centroid_hz'',
                   ''spectral_rolloff_percent'', ''harmonic_ratio'', ''tempo_bpm'']"

text \<open>The numeric fields the engine reads hold numbers where they are present.\<close>

definition numeric_fields :: "pydict \<Rightarrow> bool" where
  "numeric_fields e = list_all (\<lambda>k. is_number (dict_get e k (PyInt 0))) numeric_keys"

text \<open>\<open>features\<close> carries the non-empty DescriptorSet \<open>e\<close>.\<close>

definition descriptor_set :: "pydict \<Rightarrow> pydict \<Rightarrow> bool" where
  "descriptor_set features e =
     (features ''extracted_features'' = Some (PyDict e) \<and> e \<noteq> Map.empty)"

text \<open>The bands of the threshold table of the specification: a check is favourable when
  its value is neither below the low threshold nor above the high one.\<close>

definition is_below :: "pyval \<Rightarrow> rat \<Rightarrow> bool" where
  "is_below v t = (py_lt v t = Inr True)"

definition is_above :: "pyval \<Rightarrow> rat \<Rightarrow> bool" where
  "is_above v t = (py_gt v t = Inr True)"

definition in_band :: "pyval \<Rightarrow> rat \<Rightarrow> rat \<Rightarrow> bool" where
  "in_band v lo hi = (\<not> is_below v lo \<and> \<not> is_above v hi)"

definition favorable_flags :: "thresholds \<Rightarrow> pydict \<Rightarrow> bool list" where
  "favorable_flags self e =
     [in_band (dict_get e ''rms_db'' (PyInt 0)) (rms_too_quiet self) (rms_too_loud self),
      in_band (dict_get e ''dynamic_range_db'' (PyInt 0))
        (dynamic_range_low self) (dynamic_range_high self),
      in_band (dict_get e ''spectral_centroid_hz'' (PyInt 0))
        (spectral_centroid_low self) (spectral_centroid_high self),
      in_band (dict_get e ''spectral_rolloff_percent'' (PyInt 0))
        (spectral_rolloff_low self) (spectral_rolloff_high self),
      \<not> is_below (dict_get e ''harmonic_ratio'' (PyInt 0)) (harmonic_ratio_low self),
      in_band (dict_get e ''tempo_bpm'' (PyInt 0)) 60 180]"

definition favorable_checks :: "thresholds \<Rightarrow> pydict \<Rightarrow> nat" where
  "favorable_checks self e = length (filter (\<lambda>b. b) (favorable_flags self e))"

text \<open>An entry of a category: a tier marker, then the category name between the bold
  signs.\<close>

definition category_entry :: "string \<Rightarrow> string \<Rightarrow> string \<Rightarrow> bool" where
  "category_entry mark category s = prefix (mark @ '' **'' @ category @ ''**: '') s"

text \<open>The "too quiet" suggestion of the loudness check.\<close>

definition too_quiet :: "string \<Rightarrow> bool" where
  "too_quiet s = prefix (speaker_mark @ '' **Loudness**: Track is quiet'') s"

text \<open>The markers of a judgement, favourable or warning.\<close>

definition judgement_marks :: "string list" where
  "judgement_marks = [check_mark, speaker_mark, slider_mark, note_mark, chart_mark,
                      guitar_mark, stopwatch_mark]"

text \<open>The fields \<open>generate\<close> fetches, each with the default of its \<open>get\<close>.\<close>

definition field_defaults :: "(string \<times> pyval) list" where
  "field_defaults =
     [(''rms_db'', PyInt 0), (''lufs_approx'', PyInt 0), (''dynamic_range_db'', PyInt 0),
      (''spectral_centroid_hz'', PyInt 0), (''spectral_rolloff_percent'', PyInt 0),
      (''harmonic_ratio'', PyInt 0), (''percussive_ratio'', PyInt 0), (''tempo_bpm'', PyInt 0),
      (''estimated_key'', PyStr ''Unknown'')]"

text \<open>The rendering primitive the closed examples run with; their key is a string, which
  is printed as it is.\<close>

definition repr0 :: "pyval \<Rightarrow> string" where
  "repr0 v = []"


subsection \<open>The number a string of digits denotes\<close>





subsection \<open>The schema of the DescriptorSet\<close>


definition descriptor_keys :: "string list" where
  "descriptor_keys = [''tempo_bpm'', ''estimated_key'', ''rms_db'', ''lufs_approx'',
     ''spectral_centroid_hz'', ''spectral_rolloff_percent'', ''zero_crossing_rate'',
     ''spectral_bandwidth_hz'', ''dynamic_range_db'', ''spectral_contrast'', ''mfcc_mean'',
     ''harmonic_ratio'', ''percussive_ratio'']"



text \<open>An exception that some primitive of the library raises on some arguments.\<close>

definition lib_raises :: "audio_lib \<Rightarrow> exc \<Rightarrow> bool" where
  "lib_raises lib x =
     ((\<exists>path sr. lib_load lib path sr = Inl x) \<or>
      (\<exists>y sr. lib_beat_track lib y sr = Inl x) \<or>
      (\<exists>y sr. lib_chroma_stft lib y sr = Inl x) \<or>
      (\<exists>y. lib_rms lib y = Inl x) \<or>
      (\<exists>y sr. lib_spectral_centroid lib y sr = Inl x) \<or>
      (\<exists>y sr. lib_spectral_rolloff lib y sr = Inl x) \<or>
      (\<exists>y. lib_zero_crossing_rate lib y = Inl x) \<or>
      (\<exists>y sr. lib_spectral_bandwidth lib y sr = Inl x) \<or>
      (\<exists>y sr. lib_spectral_contrast lib y sr = Inl x) \<or>
      (\<exists>y sr n. lib_mfcc lib y sr n = Inl x) \<or>
      (\<exists>y. lib_hpss lib y = Inl x))"

subsection \<open>Sample inputs\<close>

text \<open>The dictionary \<open>generate\<close> receives, holding the DescriptorSet \<open>e\<close> and nothing
  else.\<close>

definition with_descriptors :: "pydict \<Rightarrow> pydict" where
  "with_descriptors e = [''extracted_features'' \<mapsto> PyDict e]"

text \<open>A DescriptorSet with all thirteen fields, every check in its favourable band.\<close>

definition good_mix :: pydict where
  "good_mix =
     [''tempo_bpm'' \<mapsto> PyFloat (Finite 120),
      ''estimated_key'' \<mapsto> PyStr ''A'',
      ''rms_db'' \<mapsto> PyFloat (Finite (- 12)),
      ''lufs_approx'' \<mapsto> PyFloat (Finite (- 35)),
      ''spectral_centroid_hz'' \<mapsto> PyFloat (Finite 3000),
      ''spectral_rolloff_percent'' \<mapsto> PyFloat (Finite 75),
      ''zero_crossing_rate'' \<mapsto> PyFloat (Finite (1 / 8)),
      ''spectral_bandwidth_hz'' \<mapsto> PyFloat (Finite 2500),
      ''dynamic_range_db'' \<mapsto> PyFloat (Finite 10),
      ''spectral_contrast'' \<mapsto> PyFloat (Finite 20),
      ''mfcc_mean'' \<mapsto> PyFloat (Finite (- 150)),
      ''harmonic_ratio'' \<mapsto> PyFloat (Finite (3 / 4)),
      ''percussive_ratio'' \<mapsto> PyFloat (Finite (1 / 4))]"

text \<open>The same with a fast tempo: five favourable checks. With a low harmonic ratio as
  well: four.\<close>

definition five_favorable :: pydict where
  "five_favorable = good_mix(''tempo_bpm'' \<mapsto> PyFloat (Finite 200))"

definition four_favorable :: pydict where
  "four_favorable = five_favorable(''harmonic_ratio'' \<mapsto> PyFloat (Finite (1 / 4)))"

text \<open>Loudness at the threshold, and one hundredth below it.\<close>

definition at_threshold :: pydict where
  "at_threshold = good_mix(''rms_db'' \<mapsto> PyFloat (Finite (- 20)))"

definition below_threshold :: pydict where
  "below_threshold = good_mix(''rms_db'' \<mapsto> PyFloat (Finite (- 2001 / 100)))"

text \<open>A field received with two decimals, \<open>rms_db = -20.25\<close>.\<close>

definition two_decimals :: pydict where
  "two_decimals = good_mix(''rms_db'' \<mapsto> PyFloat (Finite (- 81 / 4)))"

text \<open>A DescriptorSet with a single field, and one whose \<open>rms_db\<close> is a string.\<close>

definition tempo_only :: pydict where
  "tempo_only = [''tempo_bpm'' \<mapsto> PyFloat (Finite 120)]"

definition text_rms :: pydict where
  "text_rms = [''rms_db'' \<mapsto> PyStr ''loud'']"

text \<open>A stand-in for the library: it decodes \<open>tone.wav\<close> to four samples and
  \<open>empty.wav\<close> to none, and fails to decode any other path; its features are constant
  arrays.\<close>

definition sample_lib :: audio_lib where
  "sample_lib =
     \<lparr> lib_load = (\<lambda>path sr.
         if path = ''tone.wav''
         then Inr ([Finite (1 / 2), Finite (- 1 / 2), Finite (1 / 2), Finite (- 1 / 2)], sr)
         else if path = ''empty.wav'' then Inr ([], sr)
         else Inl (LibraryError ''NoBackendError'')),
       lib_beat_track = (\<lambda>y sr. Inr (Finite 120, [])),
       lib_chroma_stft = (\<lambda>y sr. Inr
         [[Finite (1 / 10)], [Finite (1 / 10)], [Finite (1 / 10)], [Finite (1 / 10)],
          [Finite (1 / 10)], [Finite (1 / 10)], [Finite (1 / 10)], [Finite (1 / 10)],
          [Finite (1 / 10)], [Finite 1], [Finite (1 / 10)], [Finite (1 / 10)]]),
       lib_rms = (\<lambda>y. Inr [[Finite (1 / 2)]]),
       lib_spectral_centroid = (\<lambda>y sr. Inr [[Finite 440]]),
       lib_spectral_rolloff = (\<lambda>y sr. Inr [[Finite 882]]),
       lib_zero_crossing_rate = (\<lambda>y. Inr [[Finite (1 / 25)]]),
       lib_spectral_bandwidth = (\<lambda>y sr. Inr [[Finite 100]]),
       lib_spectral_contrast = (\<lambda>y sr. Inr [[Finite 20]]),
       lib_mfcc = (\<lambda>y sr n. Inr (replicate n [Finite (- 100)])),
       lib_hpss = (\<lambda>y. Inr (y, map (\<lambda>s. Finite 0) y)),
       lib_log10 = (\<lambda>r. Finite (- 3 / 10)) \<rparr>"

section \<open>Numbers never raise\<close>

lemma bind_exc_Inr: "bind_exc m f = Inr y \<longleftrightarrow> (\<exists>x. m = Inr x \<and> f x = Inr y)"
  by (cases m) (simp_all add: bind_exc_def)

lemma bind_exc_Inl: "bind_exc m f = Inl z \<longleftrightarrow> m = Inl z \<or> (\<exists>x. m = Inr x \<and> f x = Inl z)"
  by (cases m) (simp_all add: bind_exc_def)

lemma int_to_float_small:
  assumes "\<bar>i\<bar> < 2 ^ 53"
  shows "int_to_float i = Inr (Finite (of_int i))"
proof -
  have "bitlen \<bar>i\<bar> \<le> 53"
    using assms by (simp add: bitlen_le_iff_power)
  then have "nat (bitlen \<bar>i\<bar>) \<le> 53" by simp
  then show ?thesis by (simp add: int_to_float_def Let_def)
qed

lemma int_to_float_total:
  assumes "\<bar>i\<bar> < 2 ^ 1023"
  shows "\<exists>r. int_to_float i = Inr (Finite r)"
proof (cases "nat (bitlen \<bar>i\<bar>) \<le> 53")
  case True
  then show ?thesis by (simp add: int_to_float_def Let_def)
next
  case False
  define a where "a = \<bar>i\<bar>"
  define n where "n = nat (bitlen a)"
  define sh where "sh = n - 53"
  define q where "q = a div 2 ^ sh"
  have n53: "53 < n" using False by (simp add: n_def a_def)
  have apos: "0 < a"
    using n53 bitlen_eq_zero_iff[of a] by (cases "a \<le> 0") (auto simp: n_def)
  have "bitlen a \<le> 1023" using assms by (simp add: bitlen_le_iff_power a_def)
  then have n1023: "n \<le> 1023" by (simp add: n_def)
  have an: "a < 2 ^ n" using bitlen_bounds[OF apos] by (simp add: n_def)
  have nsh: "n = 53 + sh" using n53 by (simp add: sh_def)
  have pw: "(2::int) ^ n = 2 ^ 53 * 2 ^ sh" by (simp only: nsh power_add)
  have alt: "a < 2 ^ 53 * 2 ^ sh" using an by (simp only: pw)
  have dpos: "(0::int) < 2 ^ sh" by simp
  have "q * 2 ^ sh \<le> a" unfolding q_def
    using dpos div_mult_mod_eq[of a "2 ^ sh"] pos_mod_sign[OF dpos, of a] by linarith
  then have "q * 2 ^ sh < 2 ^ 53 * 2 ^ sh" using alt by linarith
  then have "q < 2 ^ 53" using dpos by (simp only: mult_less_cancel_right_pos)
  then have "q + 1 \<le> 2 ^ 53" by simp
  then have b1: "(q + 1) * 2 ^ sh \<le> 2 ^ 53 * 2 ^ sh" by (simp add: mult_right_mono)
  have "q * 2 ^ sh \<le> (q + 1) * 2 ^ sh" by (simp add: mult_right_mono)
  with b1 have b2: "q * 2 ^ sh \<le> 2 ^ 53 * 2 ^ sh" by linarith
  have "(2::int) ^ 53 * 2 ^ sh = 2 ^ n" by (simp only: pw)
  also have "\<dots> \<le> 2 ^ 1023" using n1023 by (intro power_increasing) simp_all
  also have "\<dots> < (2::int) ^ 1024" by (intro power_strict_increasing) simp_all
  finally have lt: "(2::int) ^ 53 * 2 ^ sh < 2 ^ 1024" .
  have c1: "\<not> 2 ^ 1024 \<le> (q + 1) * 2 ^ sh" using b1 lt by linarith
  have c2: "\<not> 2 ^ 1024 \<le> q * 2 ^ sh" using b2 lt by linarith
  show ?thesis
    using False c1 c2
    unfolding int_to_float_def Let_def a_def[symmetric] n_def[symmetric] sh_def[symmetric]
      q_def[symmetric]
    by auto
qed

lemma py_lt_number: "is_number v \<Longrightarrow> py_lt v t = Inr (is_below v t)"
  by (cases v) (simp_all add: is_below_def)

lemma py_gt_number: "is_number v \<Longrightarrow> py_gt v t = Inr (is_above v t)"
  by (cases v) (simp_all add: is_above_def)

lemma py_format_f_number: "is_number v \<Longrightarrow> \<exists>s. py_format_f p v = Inr s"
  by (cases v) (simp_all add: int_to_float_small bind_exc_def)

lemma py_mul100_number:
  assumes "is_number v"
  shows "\<exists>w s. py_mul100 v = Inr w \<and> py_format_f p w = Inr s"
proof (cases v)
  case (PyInt i)
  with assms have "\<bar>i\<bar> < 2 ^ 53" by simp
  then have "\<bar>i * 100\<bar> < 2 ^ 53 * 100" by (simp add: abs_mult)
  also have "\<dots> < (2::int) ^ 1023" by simp
  finally obtain r where "int_to_float (i * 100) = Inr (Finite r)"
    using int_to_float_total by blast
  with PyInt show ?thesis by (simp add: bind_exc_def)
qed (use assms in simp_all)


subsection \<open>Evaluation on numerals\<close>

lemma floor_rat_numeral: "\<lfloor>numeral a / numeral b :: rat\<rfloor> = numeral a div numeral b"
  by (metis floor_divide_of_int_eq of_int_numeral)

lemma floor_rat_minus_numeral:
  "\<lfloor>- (numeral a / numeral b) :: rat\<rfloor> = - numeral a div numeral b"
  by (metis divide_minus_left floor_divide_of_int_eq of_int_neg_numeral of_int_numeral)

lemmas digits_numeral = digits.simps[of "numeral k"] digits.simps[of 0] digits.simps[of 1]
  digits.simps[of "Suc 0"] for k

lemmas eval_defs = dict_get_def bind_exc_def Let_def fixed_str_def round_half_even_def
  digits_numeral digit_char_def pad_zeros_def init_def floor_rat_numeral floor_rat_minus_numeral

section \<open>What each check returns\<close>

lemma three_way_Inr:
  assumes "bind_exc (py_lt v lo) (\<lambda>low. if low then A
             else bind_exc (py_gt v hi) (\<lambda>high. if high then B else C)) = Inr s"
  shows "(is_below v lo \<and> A = Inr s)
       \<or> (\<not> is_below v lo \<and> is_above v hi \<and> B = Inr s)
       \<or> (in_band v lo hi \<and> C = Inr s)"
  using assms unfolding in_band_def is_below_def is_above_def
  by (auto simp: bind_exc_Inr split: if_splits)

lemma loudness_Inr:
  assumes "loudness self e = Inr s"
  shows "(is_below (dict_get e ''rms_db'' (PyInt 0)) (rms_too_quiet self) \<and>
           (\<exists>r. py_format_f 1 (dict_get e ''rms_db'' (PyInt 0)) = Inr r \<and> s = loudness_quiet r))
       \<or> (\<not> is_below (dict_get e ''rms_db'' (PyInt 0)) (rms_too_quiet self) \<and>
           is_above (dict_get e ''rms_db'' (PyInt 0)) (rms_too_loud self) \<and>
           (\<exists>r. py_format_f 1 (dict_get e ''rms_db'' (PyInt 0)) = Inr r \<and> s = loudness_loud r))
       \<or> (in_band (dict_get e ''rms_db'' (PyInt 0)) (rms_too_quiet self) (rms_too_loud self) \<and>
           (\<exists>r l. py_format_f 1 (dict_get e ''rms_db'' (PyInt 0)) = Inr r \<and>
                  py_format_f 1 (dict_get e ''lufs_approx'' (PyInt 0)) = Inr l \<and>
                  s = loudness_good r l))"
  using three_way_Inr[OF assms[unfolded loudness_def Let_def]]
  by (auto simp: bind_exc_Inr)

lemma dynamic_range_Inr:
  assumes "dynamic_range self e = Inr s"
  shows "(is_below (dict_get e ''dynamic_range_db'' (PyInt 0)) (dynamic_range_low self) \<and>
           (\<exists>r. py_format_f 1 (dict_get e ''dynamic_range_db'' (PyInt 0)) = Inr r \<and>
                s = range_compressed r))
       \<or> (\<not> is_below (dict_get e ''dynamic_range_db'' (PyInt 0)) (dynamic_range_low self) \<and>
           is_above (dict_get e ''dynamic_range_db'' (PyInt 0)) (dynamic_range_high self) \<and>
           (\<exists>r. py_format_f 1 (dict_get e ''dynamic_range_db'' (PyInt 0)) = Inr r \<and>
                s = range_wide r))
       \<or> (in_band (dict_get e ''dynamic_range_db'' (PyInt 0))
             (dynamic_range_low self) (dynamic_range_high self) \<and>
           (\<exists>r. py_format_f 1 (dict_get e ''dynamic_range_db'' (PyInt 0)) = Inr r \<and>
                s = range_balanced r))"
  using three_way_Inr[OF assms[unfolded dynamic_range_def Let_def]]
  by (auto simp: bind_exc_Inr)

lemma frequency_balance_Inr:
  assumes "frequency_balance self e = Inr s"
  shows "(is_below (dict_get e ''spectral_centroid_hz'' (PyInt 0)) (spectral_centroid_low self) \<and>
           (\<exists>r. py_format_f 0 (dict_get e ''spectral_centroid_hz'' (PyInt 0)) = Inr r \<and>
                s = balance_low r))
       \<or> (\<not> is_below (dict_get e ''spectral_centroid_hz'' (PyInt 0)) (spectral_centroid_low self) \<and>
           is_above (dict_get e ''spectral_centroid_hz'' (PyInt 0)) (spectral_centroid_high self) \<and>
           (\<exists>r. py_format_f 0 (dict_get e ''spectral_centroid_hz'' (PyInt 0)) = Inr r \<and>
                s = balance_bright r))
       \<or> (in_band (dict_get e ''spectral_centroid_hz'' (PyInt 0))
             (spectral_centroid_low self) (spectral_centroid_high self) \<and>
           (\<exists>r. py_format_f 0 (dict_get e ''spectral_centroid_hz'' (PyInt 0)) = Inr r \<and>
                s = balance_good r))"
  using three_way_Inr[OF assms[unfolded frequency_balance_def Let_def]]
  by (auto simp: bind_exc_Inr)

lemma high_frequency_content_Inr:
  assumes "high_frequency_content self e = Inr s"
  shows "(is_below (dict_get e ''spectral_rolloff_percent'' (PyInt 0)) (spectral_rolloff_low self) \<and>
           (\<exists>r. py_format_f 1 (dict_get e ''spectral_rolloff_percent'' (PyInt 0)) = Inr r \<and>
                s = highs_limited r))
       \<or> (\<not> is_below (dict_get e ''spectral_rolloff_percent'' (PyInt 0)) (spectral_rolloff_low self) \<and>
           is_above (dict_get e ''spectral_rolloff_percent'' (PyInt 0)) (spectral_rolloff_high self) \<and>
           (\<exists>r. py_format_f 1 (dict_get e ''spectral_rolloff_percent'' (PyInt 0)) = Inr r \<and>
                s = highs_extended r))
       \<or> (in_band (dict_get e ''spectral_rolloff_percent'' (PyInt 0))
             (spectral_rolloff_low self) (spectral_rolloff_high self) \<and>
           (\<exists>r. py_format_f 1 (dict_get e ''spectral_rolloff_percent'' (PyInt 0)) = Inr r \<and>
                s = highs_good r))"
  using three_way_Inr[OF assms[unfolded high_frequency_content_def Let_def]]
  by (auto simp: bind_exc_Inr)

lemma harmonic_content_Inr:
  assumes "harmonic_content self e = Inr s"
  shows "(is_below (dict_get e ''harmonic_ratio'' (PyInt 0)) (harmonic_ratio_low self) \<and>
           (\<exists>pct r. py_mul100 (dict_get e ''harmonic_ratio'' (PyInt 0)) = Inr pct \<and>
                    py_format_f 1 pct = Inr r \<and> s = harmonic_low r))
       \<or> (\<not> is_below (dict_get e ''harmonic_ratio'' (PyInt 0)) (harmonic_ratio_low self) \<and>
           (\<exists>pct r. py_mul100 (dict_get e ''harmonic_ratio'' (PyInt 0)) = Inr pct \<and>
                    py_format_f 1 pct = Inr r \<and> s = harmonic_good r))"
  using assms unfolding harmonic_content_def Let_def is_below_def
  by (auto simp: bind_exc_Inr split: if_splits)

lemma tempo_analysis_Inr:
  assumes "tempo_analysis e = Inr s"
  shows "(is_below (dict_get e ''tempo_bpm'' (PyInt 0)) 60 \<and>
           (\<exists>r. py_format_f 1 (dict_get e ''tempo_bpm'' (PyInt 0)) = Inr r \<and> s = tempo_slow r))
       \<or> (\<not> is_below (dict_get e ''tempo_bpm'' (PyInt 0)) 60 \<and>
           is_above (dict_get e ''tempo_bpm'' (PyInt 0)) 180 \<and>
           (\<exists>r. py_format_f 1 (dict_get e ''tempo_bpm'' (PyInt 0)) = Inr r \<and> s = tempo_fast r))
       \<or> (in_band (dict_get e ''tempo_bpm'' (PyInt 0)) 60 180 \<and>
           (\<exists>r. py_format_f 1 (dict_get e ''tempo_bpm'' (PyInt 0)) = Inr r \<and> s = tempo_good r))"
  using three_way_Inr[OF assms[unfolded tempo_analysis_def Let_def]]
  by (auto simp: bind_exc_Inr)

lemma loudness_total:
  assumes "is_number (dict_get e ''rms_db'' (PyInt 0))"
      and "is_number (dict_get e ''lufs_approx'' (PyInt 0))"
  shows "\<exists>s. loudness self e = Inr s"
proof -
  obtain r where r: "py_format_f 1 (dict_get e ''rms_db'' (PyInt 0)) = Inr r"
    using py_format_f_number[OF assms(1)] by blast
  obtain l where l: "py_format_f 1 (dict_get e ''lufs_approx'' (PyInt 0)) = Inr l"
    using py_format_f_number[OF assms(2)] by blast
  show ?thesis
    unfolding loudness_def Let_def
    by (simp add: py_lt_number[OF assms(1)] py_gt_number[OF assms(1)] r l bind_exc_def
             del: One_nat_def)
qed

lemma dynamic_range_total:
  assumes "is_number (dict_get e ''dynamic_range_db'' (PyInt 0))"
  shows "\<exists>s. dynamic_range self e = Inr s"
proof -
  obtain r where r: "py_format_f 1 (dict_get e ''dynamic_range_db'' (PyInt 0)) = Inr r"
    using py_format_f_number[OF assms] by blast
  show ?thesis
    unfolding dynamic_range_def Let_def
    by (simp add: py_lt_number[OF assms] py_gt_number[OF assms] r bind_exc_def
             del: One_nat_def)
qed

lemma frequency_balance_total:
  assumes "is_number (dict_get e ''spectral_centroid_hz'' (PyInt 0))"
  shows "\<exists>s. frequency_balance self e = Inr s"
proof -
  obtain r where r: "py_format_f 0 (dict_get e ''spectral_centroid_hz'' (PyInt 0)) = Inr r"
    using py_format_f_number[OF assms] by blast
  show ?thesis
    unfolding frequency_balance_def Let_def
    by (simp add: py_lt_number[OF assms] py_gt_number[OF assms] r bind_exc_def)
qed

lemma high_frequency_content_total:
  assumes "is_number (dict_get e ''spectral_rolloff_percent'' (PyInt 0))"
  shows "\<exists>s. high_frequency_content self e = Inr s"
proof -
  obtain r where r: "py_format_f 1 (dict_get e ''spectral_rolloff_percent'' (PyInt 0)) = Inr r"
    using py_format_f_number[OF assms] by blast
  show ?thesis
    unfolding high_frequency_content_def Let_def
    by (simp add: py_lt_number[OF assms] py_gt_number[OF assms] r bind_exc_def
             del: One_nat_def)
qed

lemma harmonic_content_total:
  assumes "is_number (dict_get e ''harmonic_ratio'' (PyInt 0))"
  shows "\<exists>s. harmonic_content self e = Inr s"
proof -
  obtain w r where w: "py_mul100 (dict_get e ''harmonic_ratio'' (PyInt 0)) = Inr w"
    and r: "py_format_f 1 w = Inr r"
    using py_mul100_number[OF assms] by blast
  show ?thesis
    unfolding harmonic_content_def Let_def
    by (simp add: py_lt_number[OF assms] w r bind_exc_def del: One_nat_def)
qed

lemma tempo_analysis_total:
  assumes "is_number (dict_get e ''tempo_bpm'' (PyInt 0))"
  shows "\<exists>s. tempo_analysis e = Inr s"
proof -
  obtain r where r: "py_format_f 1 (dict_get e ''tempo_bpm'' (PyInt 0)) = Inr r"
    using py_format_f_number[OF assms] by blast
  show ?thesis
    unfolding tempo_analysis_def Let_def
    by (simp add: py_lt_number[OF assms] py_gt_number[OF assms] r bind_exc_def
             del: One_nat_def)
qed

section \<open>Markers of the templates\<close>

lemmas mark_defs = check_mark_def speaker_mark_def slider_mark_def note_mark_def chart_mark_def
  guitar_mark_def stopwatch_mark_def piano_mark_def party_mark_def bulb_mark_def

lemmas template_defs = loudness_quiet_def loudness_loud_def loudness_good_def
  range_compressed_def range_wide_def range_balanced_def
  balance_low_def balance_bright_def balance_good_def
  highs_limited_def highs_extended_def highs_good_def
  harmonic_low_def harmonic_good_def tempo_slow_def tempo_fast_def tempo_good_def key_entry_def

lemma favourable_templates:
  "prefix check_mark (loudness_good r l)" "prefix check_mark (range_balanced r)"
  "prefix check_mark (balance_good r)" "prefix check_mark (highs_good r)"
  "prefix check_mark (harmonic_good r)" "prefix check_mark (tempo_good r)"
  by (simp_all add: template_defs)

lemma warning_templates:
  "\<not> prefix check_mark (loudness_quiet r)" "\<not> prefix check_mark (loudness_loud r)"
  "\<not> prefix check_mark (range_compressed r)" "\<not> prefix check_mark (range_wide r)"
  "\<not> prefix check_mark (balance_low r)" "\<not> prefix check_mark (balance_bright r)"
  "\<not> prefix check_mark (highs_limited r)" "\<not> prefix check_mark (highs_extended r)"
  "\<not> prefix check_mark (harmonic_low r)"
  "\<not> prefix check_mark (tempo_slow r)" "\<not> prefix check_mark (tempo_fast r)"
  "\<not> prefix check_mark (key_entry k)"
  by (simp_all add: template_defs mark_defs)

lemma category_templates:
  "category_entry speaker_mark ''Loudness'' (loudness_quiet r)"
  "category_entry speaker_mark ''Loudness'' (loudness_loud r)"
  "category_entry check_mark ''Loudness'' (loudness_good r l)"
  "category_entry slider_mark ''Dynamic Range'' (range_compressed r)"
  "category_entry slider_mark ''Dynamic Range'' (range_wide r)"
  "category_entry check_mark ''Dynamic Range'' (range_balanced r)"
  "category_entry note_mark ''Frequency Balance'' (balance_low r)"
  "category_entry note_mark ''Frequency Balance'' (balance_bright r)"
  "category_entry check_mark ''Frequency Balance'' (balance_good r)"
  "category_entry chart_mark ''High-Frequency Content'' (highs_limited r)"
  "category_entry chart_mark ''High-Frequency Content'' (highs_extended r)"
  "category_entry check_mark ''High-Frequency Content'' (highs_good r)"
  "category_entry guitar_mark ''Harmonic Content'' (harmonic_low r)"
  "category_entry check_mark ''Harmonic Content'' (harmonic_good r)"
  "category_entry stopwatch_mark ''Tempo'' (tempo_slow r)"
  "category_entry stopwatch_mark ''Tempo'' (tempo_fast r)"
  "category_entry check_mark ''Tempo'' (tempo_good r)"
  "category_entry piano_mark ''Key Detection'' (key_entry k)"
  by (simp_all add: template_defs category_entry_def)

section \<open>The shape of the result\<close>

lemma generate_descriptor_set:
  assumes "descriptor_set features e"
  shows "generate repr self features =
           bind_exc (loudness self e) (\<lambda>s1.
           bind_exc (dynamic_range self e) (\<lambda>s2.
           bind_exc (frequency_balance self e) (\<lambda>s3.
           bind_exc (high_frequency_content self e) (\<lambda>s4.
           bind_exc (harmonic_content self e) (\<lambda>s5.
           bind_exc (tempo_analysis e) (\<lambda>s6.
             Inr (overall_summary [s1, s2, s3, s4, s5, s6, key_detection repr e])))))))"
  using assms unfolding descriptor_set_def generate_def Let_def dict_get_def
  by (simp add: bind_exc_def)

lemma numeric_fields_iff:
  "numeric_fields e \<longleftrightarrow>
     is_number (dict_get e ''rms_db'' (PyInt 0)) \<and>
     is_number (dict_get e ''lufs_approx'' (PyInt 0)) \<and>
     is_number (dict_get e ''dynamic_range_db'' (PyInt 0)) \<and>
     is_number (dict_get e ''spectral_centroid_hz'' (PyInt 0)) \<and>
     is_number (dict_get e ''spectral_rolloff_percent'' (PyInt 0)) \<and>
     is_number (dict_get e ''harmonic_ratio'' (PyInt 0)) \<and>
     is_number (dict_get e ''tempo_bpm'' (PyInt 0))"
  by (simp add: numeric_fields_def numeric_keys_def)

lemma generate_numeric:
  assumes "descriptor_set features e" and "numeric_fields e"
  shows "\<exists>s1 s2 s3 s4 s5 s6.
           loudness self e = Inr s1 \<and> dynamic_range self e = Inr s2 \<and>
           frequency_balance self e = Inr s3 \<and> high_frequency_content self e = Inr s4 \<and>
           harmonic_content self e = Inr s5 \<and> tempo_analysis e = Inr s6 \<and>
           generate repr self features =
             Inr (overall_summary [s1, s2, s3, s4, s5, s6, key_detection repr e])"
proof -
  from assms(2) have n: "is_number (dict_get e ''rms_db'' (PyInt 0))"
     "is_number (dict_get e ''lufs_approx'' (PyInt 0))"
     "is_number (dict_get e ''dynamic_range_db'' (PyInt 0))"
     "is_number (dict_get e ''spectral_centroid_hz'' (PyInt 0))"
     "is_number (dict_get e ''spectral_rolloff_percent'' (PyInt 0))"
     "is_number (dict_get e ''harmonic_ratio'' (PyInt 0))"
     "is_number (dict_get e ''tempo_bpm'' (PyInt 0))"
    by (simp_all add: numeric_fields_iff)
  obtain s1 where s1: "loudness self e = Inr s1" using loudness_total[OF n(1,2)] by blast
  obtain s2 where s2: "dynamic_range self e = Inr s2" using dynamic_range_total[OF n(3)] by blast
  obtain s3 where s3: "frequency_balance self e = Inr s3"
    using frequency_balance_total[OF n(4)] by blast
  obtain s4 where s4: "high_frequency_content self e = Inr s4"
    using high_frequency_content_total[OF n(5)] by blast
  obtain s5 where s5: "harmonic_content self e = Inr s5"
    using harmonic_content_total[OF n(6)] by blast
  obtain s6 where s6: "tempo_analysis e = Inr s6" using tempo_analysis_total[OF n(7)] by blast
  show ?thesis
    by (simp add: generate_descriptor_set[OF assms(1)] s1 s2 s3 s4 s5 s6 bind_exc_def)
qed

lemma generate_Inr:
  assumes "descriptor_set features e" and "generate repr self features = Inr out"
  shows "\<exists>s1 s2 s3 s4 s5 s6.
           loudness self e = Inr s1 \<and> dynamic_range self e = Inr s2 \<and>
           frequency_balance self e = Inr s3 \<and> high_frequency_content self e = Inr s4 \<and>
           harmonic_content self e = Inr s5 \<and> tempo_analysis e = Inr s6 \<and>
           out = overall_summary [s1, s2, s3, s4, s5, s6, key_detection repr e]"
  using assms(2) unfolding generate_descriptor_set[OF assms(1)] bind_exc_Inr
  by auto

lemma loudness_tier:
  assumes "loudness self e = Inr s"
  shows "prefix check_mark s \<longleftrightarrow>
           in_band (dict_get e ''rms_db'' (PyInt 0)) (rms_too_quiet self) (rms_too_loud self)"
  using loudness_Inr[OF assms]
  by (auto simp: in_band_def favourable_templates warning_templates)

lemma dynamic_range_tier:
  assumes "dynamic_range self e = Inr s"
  shows "prefix check_mark s \<longleftrightarrow>
           in_band (dict_get e ''dynamic_range_db'' (PyInt 0))
             (dynamic_range_low self) (dynamic_range_high self)"
  using dynamic_range_Inr[OF assms]
  by (auto simp: in_band_def favourable_templates warning_templates)

lemma frequency_balance_tier:
  assumes "frequency_balance self e = Inr s"
  shows "prefix check_mark s \<longleftrightarrow>
           in_band (dict_get e ''spectral_centroid_hz'' (PyInt 0))
             (spectral_centroid_low self) (spectral_centroid_high self)"
  using frequency_balance_Inr[OF assms]
  by (auto simp: in_band_def favourable_templates warning_templates)

lemma high_frequency_content_tier:
  assumes "high_frequency_content self e = Inr s"
  shows "prefix check_mark s \<longleftrightarrow>
           in_band (dict_get e ''spectral_rolloff_percent'' (PyInt 0))
             (spectral_rolloff_low self) (spectral_rolloff_high self)"
  using high_frequency_content_Inr[OF assms]
  by (auto simp: in_band_def favourable_templates warning_templates)

lemma harmonic_content_tier:
  assumes "harmonic_content self e = Inr s"
  shows "prefix check_mark s \<longleftrightarrow>
           \<not> is_below (dict_get e ''harmonic_ratio'' (PyInt 0)) (harmonic_ratio_low self)"
  using harmonic_content_Inr[OF assms]
  by (auto simp: favourable_templates warning_templates)

lemma tempo_analysis_tier:
  assumes "tempo_analysis e = Inr s"
  shows "prefix check_mark s \<longleftrightarrow> in_band (dict_get e ''tempo_bpm'' (PyInt 0)) 60 180"
  using tempo_analysis_Inr[OF assms]
  by (auto simp: in_band_def favourable_templates warning_templates)

lemma length_filter_Cons:
  "length (filter P (x # xs)) = (if P x then 1 else 0) + length (filter P xs)"
  by simp

lemma suggestion_count:
  assumes "loudness self e = Inr s1" "dynamic_range self e = Inr s2"
    "frequency_balance self e = Inr s3" "high_frequency_content self e = Inr s4"
    "harmonic_content self e = Inr s5" "tempo_analysis e = Inr s6"
  shows "length (filter (prefix check_mark) [s1, s2, s3, s4, s5, s6, key_detection repr e])
           = favorable_checks self e"
  unfolding favorable_checks_def favorable_flags_def length_filter_Cons
    loudness_tier[OF assms(1)] dynamic_range_tier[OF assms(2)] frequency_balance_tier[OF assms(3)]
    high_frequency_content_tier[OF assms(4)] harmonic_content_tier[OF assms(5)]
    tempo_analysis_tier[OF assms(6)]
  by (simp add: key_detection_def warning_templates)

section \<open>Categories of the entries\<close>

lemma not_key_templates:
  "\<not> category_entry piano_mark ''Key Detection'' (loudness_quiet r)"
  "\<not> category_entry piano_mark ''Key Detection'' (loudness_loud r)"
  "\<not> category_entry piano_mark ''Key Detection'' (loudness_good r l)"
  "\<not> category_entry piano_mark ''Key Detection'' (range_compressed r)"
  "\<not> category_entry piano_mark ''Key Detection'' (range_wide r)"
  "\<not> category_entry piano_mark ''Key Detection'' (range_balanced r)"
  "\<not> category_entry piano_mark ''Key Detection'' (balance_low r)"
  "\<not> category_entry piano_mark ''Key Detection'' (balance_bright r)"
  "\<not> category_entry piano_mark ''Key Detection'' (balance_good r)"
  "\<not> category_entry piano_mark ''Key Detection'' (highs_limited r)"
  "\<not> category_entry piano_mark ''Key Detection'' (highs_extended r)"
  "\<not> category_entry piano_mark ''Key Detection'' (highs_good r)"
  "\<not> category_entry piano_mark ''Key Detection'' (harmonic_low r)"
  "\<not> category_entry piano_mark ''Key Detection'' (harmonic_good r)"
  "\<not> category_entry piano_mark ''Key Detection'' (tempo_slow r)"
  "\<not> category_entry piano_mark ''Key Detection'' (tempo_fast r)"
  "\<not> category_entry piano_mark ''Key Detection'' (tempo_good r)"
  "\<not> category_entry piano_mark ''Key Detection'' positive_banner"
  "\<not> category_entry piano_mark ''Key Detection'' improvement_banner"
  by (simp_all add: category_entry_def template_defs mark_defs positive_banner_def
      improvement_banner_def)

lemma key_entry_informational: "\<forall>m \<in> set judgement_marks. \<not> prefix m (key_entry k)"
  by (simp add: judgement_marks_def key_entry_def mark_defs)

lemma judged_category:
  "category_entry check_mark c s \<or> category_entry speaker_mark c s \<or>
   category_entry slider_mark c s \<or> category_entry note_mark c s \<or>
   category_entry chart_mark c s \<or> category_entry guitar_mark c s \<or>
   category_entry stopwatch_mark c s
   \<Longrightarrow> \<exists>m \<in> set judgement_marks. category_entry m c s"
  by (auto simp: judgement_marks_def)

lemma loudness_category:
  assumes "loudness self e = Inr s"
  shows "(\<exists>m \<in> set judgement_marks. category_entry m ''Loudness'' s) \<and>
         \<not> category_entry piano_mark ''Key Detection'' s"
  using loudness_Inr[OF assms]
  by (auto simp: not_key_templates intro!: judged_category category_templates)

lemma dynamic_range_category:
  assumes "dynamic_range self e = Inr s"
  shows "(\<exists>m \<in> set judgement_marks. category_entry m ''Dynamic Range'' s) \<and>
         \<not> category_entry piano_mark ''Key Detection'' s"
  using dynamic_range_Inr[OF assms]
  by (auto simp: not_key_templates intro!: judged_category category_templates)

lemma frequency_balance_category:
  assumes "frequency_balance self e = Inr s"
  shows "(\<exists>m \<in> set judgement_marks. category_entry m ''Frequency Balance'' s) \<and>
         \<not> category_entry piano_mark ''Key Detection'' s"
  using frequency_balance_Inr[OF assms]
  by (auto simp: not_key_templates intro!: judged_category category_templates)

lemma high_frequency_content_category:
  assumes "high_frequency_content self e = Inr s"
  shows "(\<exists>m \<in> set judgement_marks. category_entry m ''High-Frequency Content'' s) \<and>
         \<not> category_entry piano_mark ''Key Detection'' s"
  using high_frequency_content_Inr[OF assms]
  by (auto simp: not_key_templates intro!: judged_category category_templates)

lemma harmonic_content_category:
  assumes "harmonic_content self e = Inr s"
  shows "(\<exists>m \<in> set judgement_marks. category_entry m ''Harmonic Content'' s) \<and>
         \<not> category_entry piano_mark ''Key Detection'' s"
  using harmonic_content_Inr[OF assms]
  by (auto simp: not_key_templates intro!: judged_category category_templates)

lemma tempo_analysis_category:
  assumes "tempo_analysis e = Inr s"
  shows "(\<exists>m \<in> set judgement_marks. category_entry m ''Tempo'' s) \<and>
         \<not> category_entry piano_mark ''Key Detection'' s"
  using tempo_analysis_Inr[OF assms]
  by (auto simp: not_key_templates intro!: judged_category category_templates)

section \<open>The fields \<open>generate\<close> reads\<close>

lemma dict_get_default:
  assumes "e k = None" and "(k, d) \<in> set field_defaults" and "(k', d') \<in> set field_defaults"
  shows "dict_get (e(k \<mapsto> d)) k' d' = dict_get e k' d'"
  using assms by (auto simp: dict_get_def field_defaults_def)

lemma descriptor_set_upd:
  "descriptor_set (features(''extracted_features'' \<mapsto> PyDict e)) e \<longleftrightarrow> e \<noteq> Map.empty"
  by (simp add: descriptor_set_def)

lemma checks_cong:
  assumes "\<And>k' d'. (k', d') \<in> set field_defaults \<Longrightarrow> k' \<noteq> ''percussive_ratio''
             \<Longrightarrow> dict_get e' k' d' = dict_get e k' d'"
  shows "loudness self e' = loudness self e"
    and "dynamic_range self e' = dynamic_range self e"
    and "frequency_balance self e' = frequency_balance self e"
    and "high_frequency_content self e' = high_frequency_content self e"
    and "harmonic_content self e' = harmonic_content self e"
    and "tempo_analysis e' = tempo_analysis e"
    and "key_detection repr e' = key_detection repr e"
proof -
  have g: "dict_get e' ''rms_db'' (PyInt 0) = dict_get e ''rms_db'' (PyInt 0)"
    "dict_get e' ''lufs_approx'' (PyInt 0) = dict_get e ''lufs_approx'' (PyInt 0)"
    "dict_get e' ''dynamic_range_db'' (PyInt 0) = dict_get e ''dynamic_range_db'' (PyInt 0)"
    "dict_get e' ''spectral_centroid_hz'' (PyInt 0) = dict_get e ''spectral_centroid_hz'' (PyInt 0)"
    "dict_get e' ''spectral_rolloff_percent'' (PyInt 0)
       = dict_get e ''spectral_rolloff_percent'' (PyInt 0)"
    "dict_get e' ''harmonic_ratio'' (PyInt 0) = dict_get e ''harmonic_ratio'' (PyInt 0)"
    "dict_get e' ''tempo_bpm'' (PyInt 0) = dict_get e ''tempo_bpm'' (PyInt 0)"
    "dict_get e' ''estimated_key'' (PyStr ''Unknown'') = dict_get e ''estimated_key'' (PyStr ''Unknown'')"
    by (rule assms, simp add: field_defaults_def, simp)+
  show "loudness self e' = loudness self e" by (simp only: loudness_def g)
  show "dynamic_range self e' = dynamic_range self e" by (simp only: dynamic_range_def g)
  show "frequency_balance self e' = frequency_balance self e"
    by (simp only: frequency_balance_def g)
  show "high_frequency_content self e' = high_frequency_content self e"
    by (simp only: high_frequency_content_def g)
  show "harmonic_content self e' = harmonic_content self e"
    by (simp only: harmonic_content_def g Let_def)
  show "tempo_analysis e' = tempo_analysis e" by (simp only: tempo_analysis_def g)
  show "key_detection repr e' = key_detection repr e" by (simp only: key_detection_def g)
qed

lemma generate_cong:
  assumes "descriptor_set features e" and "descriptor_set features' e'"
    and "\<And>k' d'. (k', d') \<in> set field_defaults \<Longrightarrow> k' \<noteq> ''percussive_ratio''
             \<Longrightarrow> dict_get e' k' d' = dict_get e k' d'"
  shows "generate repr self features' = generate repr self features"
proof -
  have c: "loudness self e' = loudness self e"
    "dynamic_range self e' = dynamic_range self e"
    "frequency_balance self e' = frequency_balance self e"
    "high_frequency_content self e' = high_frequency_content self e"
    "harmonic_content self e' = harmonic_content self e"
    "tempo_analysis e' = tempo_analysis e"
    "key_detection repr e' = key_detection repr e"
    by (rule checks_cong, rule assms(3), assumption+)+
  show ?thesis
    unfolding generate_descriptor_set[OF assms(1)] generate_descriptor_set[OF assms(2)]
    by (simp only: c)
qed

section \<open>What the formatted digits denote\<close>













section \<open>Rounding to decimals\<close>








section \<open>The extractor\<close>

lemmas float_defs = f_add_def f_sub_def f_mul_def f_div_def f_less_def f_max_def signed_inf_def
  signed_zero_def np_sum_def np_mean_def np_mean_axis1_def list_index_def int_truediv_def
  py_truediv_def round_decimal_def

lemma extract_features_complete:
  assumes "extract_features lib self filepath = Inr res"
  shows "\<exists>e. res ''extracted_features'' = Some (PyDict e) \<and> dom e = set descriptor_keys"
  using assms unfolding extract_features_def Let_def
  by (auto simp: bind_exc_Inr descriptor_keys_def split: prod.splits)

lemma extract_features_load_fails:
  assumes "lib_load lib filepath (target_sr self) = Inl x"
  shows "extract_features lib self filepath = Inl x"
  unfolding extract_features_def by (simp add: assms bind_exc_def)

lemma extract_features_empty_audio:
  assumes "lib_load lib filepath (target_sr self) = Inr ([], sr)"
  shows "\<exists>x. extract_features lib self filepath = Inl x"
proof (cases "extract_features lib self filepath")
  case (Inl x)
  then show ?thesis by blast
next
  case (Inr res)
  then have False
    unfolding extract_features_def Let_def
    by (auto simp: bind_exc_Inr assms split: prod.splits)
  then show ?thesis ..
qed


lemma builtin_failures:
  "int_truediv m n = Inl x \<Longrightarrow> x = ZeroDivisionError"
  "py_truediv a b = Inl x \<Longrightarrow> x = ZeroDivisionError"
  "np_argmax xs = Inl x \<Longrightarrow> x = ValueError"
  "np_max xs = Inl x \<Longrightarrow> x = ValueError"
  "list_index zs i = Inl x \<Longrightarrow> x = IndexError"
  by (auto simp: int_truediv_def py_truediv_def list_index_def split: if_splits
      elim: np_argmax.elims np_max.elims)

lemma extract_features_Inl:
  assumes "extract_features lib self filepath = Inl x"
  shows "x \<in> {ZeroDivisionError, ValueError, IndexError} \<or> lib_raises lib x"
proof (cases "lib_raises lib x")
  case True
  then show ?thesis by simp
next
  case False
  then have n: "lib_load lib p s \<noteq> Inl x" "lib_beat_track lib y s \<noteq> Inl x"
    "lib_chroma_stft lib y s \<noteq> Inl x" "lib_rms lib y \<noteq> Inl x"
    "lib_spectral_centroid lib y s \<noteq> Inl x" "lib_spectral_rolloff lib y s \<noteq> Inl x"
    "lib_zero_crossing_rate lib y \<noteq> Inl x" "lib_spectral_bandwidth lib y s \<noteq> Inl x"
    "lib_spectral_contrast lib y s \<noteq> Inl x" "lib_mfcc lib y s k \<noteq> Inl x"
    "lib_hpss lib y \<noteq> Inl x" for p s y k
    unfolding lib_raises_def by blast+
  from assms show ?thesis
    unfolding extract_features_def Let_def
    by (auto simp: bind_exc_Inl n split: prod.splits dest: builtin_failures)
qed

lemma sample_tone:
  "extract_features sample_lib extractor_init ''tone.wav'' =
     Inr [''duration_seconds'' \<mapsto> PyFloat (Finite 0),
          ''sample_rate'' \<mapsto> PyInt 22050,
          ''extracted_features'' \<mapsto> PyDict
            [''tempo_bpm'' \<mapsto> PyFloat (Finite 120),
             ''estimated_key'' \<mapsto> PyStr ''A'',
             ''rms_db'' \<mapsto> PyFloat (Finite (- 6)),
             ''lufs_approx'' \<mapsto> PyFloat (Finite (- 29)),
             ''spectral_centroid_hz'' \<mapsto> PyFloat (Finite 440),
             ''spectral_rolloff_percent'' \<mapsto> PyFloat (Finite 8),
             ''zero_crossing_rate'' \<mapsto> PyFloat (Finite (1 / 25)),
             ''spectral_bandwidth_hz'' \<mapsto> PyFloat (Finite 100),
             ''dynamic_range_db'' \<mapsto> PyFloat (Finite 0),
             ''spectral_contrast'' \<mapsto> PyFloat (Finite 20),
             ''mfcc_mean'' \<mapsto> PyFloat (Finite (- 100)),
             ''harmonic_ratio'' \<mapsto> PyFloat (Finite 1),
             ''percussive_ratio'' \<mapsto> PyFloat (Finite 0)],
          ''audio_data'' \<mapsto> PyDict
            [''length_samples'' \<mapsto> PyInt 4,
             ''peak_amplitude'' \<mapsto> PyFloat (Finite (1 / 2)),
             ''peak_db'' \<mapsto> PyFloat (Finite (- 6))]]"
  by (simp add: extract_features_def sample_lib_def extractor_init_def float_defs keys_def
      eval_defs)

lemma sample_missing:
  "lib_load sample_lib ''missing.wav'' (target_sr extractor_init)
     = Inl (LibraryError ''NoBackendError'')"
  by (simp add: sample_lib_def)

lemma sample_empty:
  "lib_load sample_lib ''empty.wav'' (target_sr extractor_init) = Inr ([], 22050)"
  by (simp add: sample_lib_def extractor_init_def)

section \<open>The sample inputs\<close>

lemmas sample_defs = good_mix_def five_favorable_def four_favorable_def at_threshold_def
  below_threshold_def two_decimals_def tempo_only_def text_rms_def

lemmas band_defs = favorable_checks_def favorable_flags_def in_band_def is_below_def is_above_def

lemma descriptor_set_with_descriptors:
  "e \<noteq> Map.empty \<Longrightarrow> descriptor_set (with_descriptors e) e"
  by (simp add: descriptor_set_def with_descriptors_def)

lemma samples_nonempty:
  "good_mix \<noteq> Map.empty" "five_favorable \<noteq> Map.empty" "four_favorable \<noteq> Map.empty"
  "at_threshold \<noteq> Map.empty" "below_threshold \<noteq> Map.empty" "two_decimals \<noteq> Map.empty"
  "tempo_only \<noteq> Map.empty" "text_rms \<noteq> Map.empty"
  by (simp_all add: sample_defs)

lemma samples_numeric:
  "numeric_fields good_mix" "numeric_fields five_favorable" "numeric_fields four_favorable"
  "numeric_fields at_threshold" "numeric_fields below_threshold" "numeric_fields two_decimals"
  "numeric_fields tempo_only"
  by (simp_all add: numeric_fields_iff dict_get_def sample_defs)

lemma overall_summary_Cons:
  "overall_summary xs =
     (if (7::rat) * (7 / 10) \<le> of_nat (length (filter (prefix check_mark) xs))
      then positive_banner else improvement_banner) # xs"
  by (simp add: overall_summary_def Let_def)

section \<open>The too-quiet suggestion\<close>

lemma too_quiet_templates:
  "too_quiet (loudness_quiet r)"
  "\<not> too_quiet (loudness_loud r)" "\<not> too_quiet (loudness_good r l)"
  "\<not> too_quiet (range_compressed r)" "\<not> too_quiet (range_wide r)"
  "\<not> too_quiet (range_balanced r)"
  "\<not> too_quiet (balance_low r)" "\<not> too_quiet (balance_bright r)"
  "\<not> too_quiet (balance_good r)"
  "\<not> too_quiet (highs_limited r)" "\<not> too_quiet (highs_extended r)"
  "\<not> too_quiet (highs_good r)"
  "\<not> too_quiet (harmonic_low r)" "\<not> too_quiet (harmonic_good r)"
  "\<not> too_quiet (tempo_slow r)" "\<not> too_quiet (tempo_fast r)" "\<not> too_quiet (tempo_good r)"
  "\<not> too_quiet (key_entry k)"
  "\<not> too_quiet positive_banner" "\<not> too_quiet improvement_banner"
  by (simp_all add: too_quiet_def template_defs mark_defs positive_banner_def
      improvement_banner_def)

lemma loudness_too_quiet:
  assumes "loudness self e = Inr s"
  shows "too_quiet s \<longleftrightarrow> is_below (dict_get e ''rms_db'' (PyInt 0)) (rms_too_quiet self)"
  using loudness_Inr[OF assms] by (auto simp: in_band_def too_quiet_templates)

lemma dynamic_range_not_too_quiet: "dynamic_range self e = Inr s \<Longrightarrow> \<not> too_quiet s"
  using dynamic_range_Inr[of self e s] by (auto simp: too_quiet_templates)

lemma frequency_balance_not_too_quiet: "frequency_balance self e = Inr s \<Longrightarrow> \<not> too_quiet s"
  using frequency_balance_Inr[of self e s] by (auto simp: too_quiet_templates)

lemma high_frequency_content_not_too_quiet:
  "high_frequency_content self e = Inr s \<Longrightarrow> \<not> too_quiet s"
  using high_frequency_content_Inr[of self e s] by (auto simp: too_quiet_templates)

lemma harmonic_content_not_too_quiet: "harmonic_content self e = Inr s \<Longrightarrow> \<not> too_quiet s"
  using harmonic_content_Inr[of self e s] by (auto simp: too_quiet_templates)

lemma tempo_analysis_not_too_quiet: "tempo_analysis e = Inr s \<Longrightarrow> \<not> too_quiet s"
  using tempo_analysis_Inr[of e s] by (auto simp: too_quiet_templates)

lemma key_detection_not_too_quiet: "\<not> too_quiet (key_detection repr e)"
  by (simp add: too_quiet_templates key_detection_def)

section \<open>The claims\<close>

text \<open>
  C1. For every non-empty DescriptorSet the engine counts the judged checks that landed in
  the favourable band and compares the count with 70% of the fixed number 7: the result
  begins with the positive banner when the count is at least \<open>7 * 0.7\<close>, in particular
  with exactly five favourable checks, and with the improvement banner otherwise, in
  particular with exactly four.
\<close>

theorem overall_banner_rule:
  assumes "descriptor_set features e" and "numeric_fields e"
  shows "\<exists>banner entries.
           generate repr self features = Inr (banner # entries) \<and>
           banner = (if (7::rat) * (7 / 10) \<le> of_nat (favorable_checks self e)
                     then positive_banner else improvement_banner) \<and>
           (favorable_checks self e = 5 \<longrightarrow> banner = positive_banner) \<and>
           (favorable_checks self e = 4 \<longrightarrow> banner = improvement_banner)"
proof -
  obtain s1 s2 s3 s4 s5 s6 where
    s: "loudness self e = Inr s1" "dynamic_range self e = Inr s2"
       "frequency_balance self e = Inr s3" "high_frequency_content self e = Inr s4"
       "harmonic_content self e = Inr s5" "tempo_analysis e = Inr s6"
    and g: "generate repr self features =
              Inr (overall_summary [s1, s2, s3, s4, s5, s6, key_detection repr e])"
    using generate_numeric[OF assms] by blast
  show ?thesis
    unfolding g overall_summary_Cons suggestion_count[OF s]
    by auto
qed

theorem overall_banner_rule_witness:
  "favorable_checks init five_favorable = 5 \<and>
   (\<exists>entries. generate repr0 init (with_descriptors five_favorable)
                  = Inr (positive_banner # entries)) \<and>
   favorable_checks init four_favorable = 4 \<and>
   (\<exists>entries. generate repr0 init (with_descriptors four_favorable)
                  = Inr (improvement_banner # entries))"
proof -
  have five: "favorable_checks init five_favorable = 5"
    by (simp add: band_defs dict_get_def sample_defs init_def)
  have four: "favorable_checks init four_favorable = 4"
    by (simp add: band_defs dict_get_def sample_defs init_def)
  from overall_banner_rule[OF descriptor_set_with_descriptors[OF samples_nonempty(2)]
      samples_numeric(2), of repr0 init]
    overall_banner_rule[OF descriptor_set_with_descriptors[OF samples_nonempty(3)]
      samples_numeric(3), of repr0 init]
  show ?thesis unfolding five four by auto
qed

text \<open>
  C2. The loudness check compares with a strict less-than against -20.0 dB: the "too quiet"
  suggestion is in the result exactly when \<open>rms_db\<close> is below -20; at -20.0 it is
  absent, at -20.01 it is present.
\<close>

theorem loudness_threshold_strict:
  assumes "descriptor_set features e" and "numeric_fields e"
      and "e ''rms_db'' = Some (PyFloat (Finite r))"
  shows "\<exists>out. generate repr init features = Inr out \<and>
           ((\<exists>s \<in> set out. too_quiet s) \<longleftrightarrow> r < - 20)"
proof -
  obtain s1 s2 s3 s4 s5 s6 where
    s: "loudness init e = Inr s1" "dynamic_range init e = Inr s2"
       "frequency_balance init e = Inr s3" "high_frequency_content init e = Inr s4"
       "harmonic_content init e = Inr s5" "tempo_analysis e = Inr s6"
    and g: "generate repr init features =
              Inr (overall_summary [s1, s2, s3, s4, s5, s6, key_detection repr e])"
    using generate_numeric[OF assms(1,2)] by blast
  have "is_below (dict_get e ''rms_db'' (PyInt 0)) (rms_too_quiet init) \<longleftrightarrow> r < - 20"
    using assms(3) by (simp add: is_below_def dict_get_def init_def)
  then have q: "too_quiet s1 \<longleftrightarrow> r < - 20"
    using loudness_too_quiet[OF s(1)] by simp
  show ?thesis
    unfolding g overall_summary_Cons
    using q dynamic_range_not_too_quiet[OF s(2)] frequency_balance_not_too_quiet[OF s(3)]
      high_frequency_content_not_too_quiet[OF s(4)] harmonic_content_not_too_quiet[OF s(5)]
      tempo_analysis_not_too_quiet[OF s(6)] key_detection_not_too_quiet[of repr e]
    by (auto simp: too_quiet_templates)
qed

theorem loudness_threshold_strict_witness:
  "(\<exists>out. generate repr0 init (with_descriptors at_threshold) = Inr out \<and>
          \<not> (\<exists>s \<in> set out. too_quiet s)) \<and>
   (\<exists>out. generate repr0 init (with_descriptors below_threshold) = Inr out \<and>
          (\<exists>s \<in> set out. too_quiet s))"
proof -
  have a: "at_threshold ''rms_db'' = Some (PyFloat (Finite (- 20)))"
    by (simp add: sample_defs)
  have b: "below_threshold ''rms_db'' = Some (PyFloat (Finite (- 2001 / 100)))"
    by (simp add: sample_defs)
  from loudness_threshold_strict[OF descriptor_set_with_descriptors[OF samples_nonempty(4)]
      samples_numeric(4) a, of repr0]
    loudness_threshold_strict[OF descriptor_set_with_descriptors[OF samples_nonempty(5)]
      samples_numeric(5) b, of repr0]
  show ?thesis by simp
qed




text \<open>
  C4. A failure of extraction is not turned into a \<open>DecodeError\<close>: \<open>extract\<close> has no
  handler, and the repository has no such class. When the loader cannot decode the file, its
  own exception leaves \<open>extract\<close> as it was raised.
\<close>

theorem load_failure_not_wrapped:
  "extract_features sample_lib extractor_init ''missing.wav''
     = Inl (LibraryError ''NoBackendError'') \<and>
   extract_features sample_lib extractor_init ''missing.wav''
     \<noteq> Inl (DecodeError (LibraryError ''NoBackendError''))"
  by (simp add: extract_features_load_fails[OF sample_missing])

text \<open>
  C4, as amended. Every failure of \<open>extract\<close> is the exception of the step that failed,
  propagated unchanged: the exception of the loader when the file cannot be decoded, and in
  general either an exception raised by a primitive of the library or one of
  \<open>ZeroDivisionError\<close>, \<open>ValueError\<close> and \<open>IndexError\<close> raised by the arithmetic
  in between. Zero-length audio always fails. No partial DescriptorSet is returned: when
  \<open>extract\<close> returns, \<open>extracted_features\<close> holds exactly the thirteen fields.
\<close>

theorem extract_failures_propagate:
  "(lib_load lib filepath (target_sr self) = Inl x
      \<longrightarrow> extract_features lib self filepath = Inl x) \<and>
   (lib_load lib filepath (target_sr self) = Inr ([], sr)
      \<longrightarrow> (\<exists>z. extract_features lib self filepath = Inl z)) \<and>
   (extract_features lib self filepath = Inl x
      \<longrightarrow> x \<in> {ZeroDivisionError, ValueError, IndexError} \<or> lib_raises lib x) \<and>
   (extract_features lib self filepath = Inr res
      \<longrightarrow> (\<exists>e. res ''extracted_features'' = Some (PyDict e) \<and> dom e = set descriptor_keys))"
  using extract_features_load_fails[of lib filepath self x]
    extract_features_empty_audio[of lib filepath self sr]
    extract_features_Inl[of lib self filepath x]
    extract_features_complete[of lib self filepath res]
  by blast

theorem extract_failures_propagate_witness:
  "extract_features sample_lib extractor_init ''missing.wav''
     = Inl (LibraryError ''NoBackendError'') \<and>
   lib_raises sample_lib (LibraryError ''NoBackendError'') \<and>
   (\<exists>z. extract_features sample_lib extractor_init ''empty.wav'' = Inl z) \<and>
   (\<exists>res e. extract_features sample_lib extractor_init ''tone.wav'' = Inr res \<and>
            res ''extracted_features'' = Some (PyDict e) \<and> dom e = set descriptor_keys)"
proof -
  note a = extract_failures_propagate[where lib = sample_lib and self = extractor_init
      and filepath = "''missing.wav''" and x = "LibraryError ''NoBackendError''"]
  note b = extract_failures_propagate[where lib = sample_lib and self = extractor_init
      and filepath = "''empty.wav''" and sr = 22050]
  have 1: "extract_features sample_lib extractor_init ''missing.wav''
     = Inl (LibraryError ''NoBackendError'')"
    using a sample_missing by blast
  have 2: "lib_raises sample_lib (LibraryError ''NoBackendError'')"
    using a 1 by blast
  have 3: "\<exists>z. extract_features sample_lib extractor_init ''empty.wav'' = Inl z"
    using b sample_empty by blast
  have 4: "\<exists>res e. extract_features sample_lib extractor_init ''tone.wav'' = Inr res \<and>
            res ''extracted_features'' = Some (PyDict e) \<and> dom e = set descriptor_keys"
    using extract_failures_propagate[where lib = sample_lib and self = extractor_init
      and filepath = "''tone.wav''"] sample_tone by blast
  from 1 2 3 4 show ?thesis by blast
qed




text \<open>
  C6. For every non-empty DescriptorSet the entries after the banner are, in this order,
  those of Loudness, Dynamic Range, Frequency Balance, High-Frequency Content, Harmonic
  Content, Tempo and Key Detection. The Key Detection entry occurs exactly once, carries
  none of the judgement markers, is in the list when the banner is computed, and is not
  counted among the favourable entries.
\<close>

theorem category_order:
  assumes "descriptor_set features e" and "numeric_fields e"
  shows "\<exists>banner s1 s2 s3 s4 s5 s6 s7.
           generate repr self features = Inr [banner, s1, s2, s3, s4, s5, s6, s7] \<and>
           (\<exists>m \<in> set judgement_marks. category_entry m ''Loudness'' s1) \<and>
           (\<exists>m \<in> set judgement_marks. category_entry m ''Dynamic Range'' s2) \<and>
           (\<exists>m \<in> set judgement_marks. category_entry m ''Frequency Balance'' s3) \<and>
           (\<exists>m \<in> set judgement_marks. category_entry m ''High-Frequency Content'' s4) \<and>
           (\<exists>m \<in> set judgement_marks. category_entry m ''Harmonic Content'' s5) \<and>
           (\<exists>m \<in> set judgement_marks. category_entry m ''Tempo'' s6) \<and>
           category_entry piano_mark ''Key Detection'' s7 \<and>
           (\<forall>m \<in> set judgement_marks. \<not> prefix m s7) \<and>
           filter (category_entry piano_mark ''Key Detection'')
             [banner, s1, s2, s3, s4, s5, s6, s7] = [s7] \<and>
           [banner, s1, s2, s3, s4, s5, s6, s7] = overall_summary [s1, s2, s3, s4, s5, s6, s7] \<and>
           length (filter (prefix check_mark) [s1, s2, s3, s4, s5, s6, s7])
             = length (filter (prefix check_mark) [s1, s2, s3, s4, s5, s6]) \<and>
           length (filter (prefix check_mark) [s1, s2, s3, s4, s5, s6, s7])
             = favorable_checks self e"
proof -
  obtain s1 s2 s3 s4 s5 s6 where
    s: "loudness self e = Inr s1" "dynamic_range self e = Inr s2"
       "frequency_balance self e = Inr s3" "high_frequency_content self e = Inr s4"
       "harmonic_content self e = Inr s5" "tempo_analysis e = Inr s6"
    and g: "generate repr self features =
              Inr (overall_summary [s1, s2, s3, s4, s5, s6, key_detection repr e])"
    using generate_numeric[OF assms] by blast
  define s7 where "s7 = key_detection repr e"
  define banner where "banner = (if (7::rat) * (7 / 10)
        \<le> of_nat (length (filter (prefix check_mark) [s1, s2, s3, s4, s5, s6, s7]))
      then positive_banner else improvement_banner)"
  have o: "overall_summary [s1, s2, s3, s4, s5, s6, s7] = [banner, s1, s2, s3, s4, s5, s6, s7]"
    by (simp only: overall_summary_Cons banner_def)
  have k: "category_entry piano_mark ''Key Detection'' s7"
    "\<forall>m \<in> set judgement_marks. \<not> prefix m s7" "\<not> prefix check_mark s7"
    using key_entry_informational
    by (simp_all add: s7_def key_detection_def category_templates warning_templates)
  have b: "\<not> category_entry piano_mark ''Key Detection'' banner"
    by (simp add: banner_def not_key_templates)
  have f: "filter (category_entry piano_mark ''Key Detection'')
             [banner, s1, s2, s3, s4, s5, s6, s7] = [s7]"
    using loudness_category[OF s(1)] dynamic_range_category[OF s(2)]
      frequency_balance_category[OF s(3)] high_frequency_content_category[OF s(4)]
      harmonic_content_category[OF s(5)] tempo_analysis_category[OF s(6)] b k(1)
    by simp
  have c: "length (filter (prefix check_mark) [s1, s2, s3, s4, s5, s6, s7])
             = length (filter (prefix check_mark) [s1, s2, s3, s4, s5, s6])"
    using k(3) by simp
  have n: "length (filter (prefix check_mark) [s1, s2, s3, s4, s5, s6, s7])
             = favorable_checks self e"
    unfolding s7_def by (rule suggestion_count[OF s])
  have G: "generate repr self features = Inr [banner, s1, s2, s3, s4, s5, s6, s7]"
    using g[folded s7_def, unfolded o] .
  show ?thesis
  proof (intro exI conjI)
    show "generate repr self features = Inr [banner, s1, s2, s3, s4, s5, s6, s7]" by (rule G)
    show "\<exists>m \<in> set judgement_marks. category_entry m ''Loudness'' s1"
      using loudness_category[OF s(1)] by (rule conjunct1)
    show "\<exists>m \<in> set judgement_marks. category_entry m ''Dynamic Range'' s2"
      using dynamic_range_category[OF s(2)] by (rule conjunct1)
    show "\<exists>m \<in> set judgement_marks. category_entry m ''Frequency Balance'' s3"
      using frequency_balance_category[OF s(3)] by (rule conjunct1)
    show "\<exists>m \<in> set judgement_marks. category_entry m ''High-Frequency Content'' s4"
      using high_frequency_content_category[OF s(4)] by (rule conjunct1)
    show "\<exists>m \<in> set judgement_marks. category_entry m ''Harmonic Content'' s5"
      using harmonic_content_category[OF s(5)] by (rule conjunct1)
    show "\<exists>m \<in> set judgement_marks. category_entry m ''Tempo'' s6"
      using tempo_analysis_category[OF s(6)] by (rule conjunct1)
    show "category_entry piano_mark ''Key Detection'' s7" by (rule k(1))
    show "\<forall>m \<in> set judgement_marks. \<not> prefix m s7" by (rule k(2))
    show "filter (category_entry piano_mark ''Key Detection'')
            [banner, s1, s2, s3, s4, s5, s6, s7] = [s7]" by (rule f)
    show "[banner, s1, s2, s3, s4, s5, s6, s7] = overall_summary [s1, s2, s3, s4, s5, s6, s7]"
      by (rule o[symmetric])
    show "length (filter (prefix check_mark) [s1, s2, s3, s4, s5, s6, s7])
            = length (filter (prefix check_mark) [s1, s2, s3, s4, s5, s6])" by (rule c)
    show "length (filter (prefix check_mark) [s1, s2, s3, s4, s5, s6, s7])
            = favorable_checks self e" by (rule n)
  qed
qed

theorem category_order_witness:
  "\<exists>banner s1 s2 s3 s4 s5 s6 s7.
     generate repr0 init (with_descriptors good_mix) = Inr [banner, s1, s2, s3, s4, s5, s6, s7] \<and>
     category_entry check_mark ''Loudness'' s1 \<and>
     category_entry check_mark ''Tempo'' s6 \<and>
     s7 = key_entry ''A'' \<and>
     \<not> prefix check_mark s7 \<and>
     length (filter (prefix check_mark) [s1, s2, s3, s4, s5, s6, s7]) = 6"
proof -
  have six: "favorable_checks init good_mix = 6"
    by (simp add: band_defs dict_get_def sample_defs init_def)
  have l: "loudness init good_mix = Inr (loudness_good ''-12.0'' ''-35.0'')"
    by (simp add: loudness_def good_mix_def eval_defs)
  have t: "tempo_analysis good_mix = Inr (tempo_good ''120.0'')"
    by (simp add: tempo_analysis_def good_mix_def eval_defs)
  have k: "key_detection repr0 good_mix = key_entry ''A''"
    by (simp add: key_detection_def good_mix_def dict_get_def)
  obtain banner s1 s2 s3 s4 s5 s6 s7 where
    g: "generate repr0 init (with_descriptors good_mix) = Inr [banner, s1, s2, s3, s4, s5, s6, s7]"
    and n: "length (filter (prefix check_mark) [s1, s2, s3, s4, s5, s6, s7])
             = favorable_checks init good_mix"
    using category_order[OF descriptor_set_with_descriptors[OF samples_nonempty(1)]
        samples_numeric(1), of repr0 init]
    by blast
  from g have "s1 = loudness_good ''-12.0'' ''-35.0''" "s6 = tempo_good ''120.0''"
    "s7 = key_entry ''A''"
    unfolding generate_descriptor_set[OF descriptor_set_with_descriptors[OF samples_nonempty(1)]]
    by (auto simp: bind_exc_Inr l t k overall_summary_Cons)
  with g n six show ?thesis
    by (auto simp: category_templates warning_templates simp del: filter.simps)
qed



text \<open>
  C8. The engine does substitute defaults: for a non-empty DescriptorSet that holds only
  \<open>tempo_bpm\<close>, every other judged check runs on the default 0 and emits its
  suggestion, and the key entry prints \<open>Unknown\<close>.
\<close>

theorem default_judged_counterexample:
  "generate repr0 init (with_descriptors tempo_only) =
     Inr [improvement_banner, loudness_loud ''0.0'', range_compressed ''0.0'', balance_low ''0'',
          highs_limited ''0.0'', harmonic_low ''0.0'', tempo_good ''120.0'',
          key_entry ''Unknown'']"
  unfolding generate_descriptor_set[OF descriptor_set_with_descriptors[OF samples_nonempty(7)]]
  by (simp add: loudness_def dynamic_range_def frequency_balance_def high_frequency_content_def
      harmonic_content_def tempo_analysis_def key_detection_def tempo_only_def eval_defs
      int_to_float_def overall_summary_Cons favourable_templates warning_templates)

text \<open>
  C8, as amended. A field missing from a non-empty DescriptorSet is replaced by the default
  of its \<open>get\<close> (0 for the numeric fields, \<open>Unknown\<close> for \<open>estimated_key\<close>): the
  result is that of the same set with the field present at its default.
\<close>

theorem missing_field_default:
  assumes "descriptor_set features e" and "e k = None" and "(k, d) \<in> set field_defaults"
  shows "generate repr self (features(''extracted_features'' \<mapsto> PyDict (e(k \<mapsto> d))))
           = generate repr self features"
proof (rule generate_cong[OF assms(1)])
  show "descriptor_set (features(''extracted_features'' \<mapsto> PyDict (e(k \<mapsto> d)))) (e(k \<mapsto> d))"
    by (simp add: descriptor_set_def)
  show "dict_get (e(k \<mapsto> d)) k' d' = dict_get e k' d'" if "(k', d') \<in> set field_defaults" for k' d'
    using dict_get_default[where e = e and k = k and d = d and k' = k' and d' = d'] assms(2,3) that
    by blast
qed

theorem missing_field_default_witness:
  "tempo_only ''rms_db'' = None \<and>
   generate repr0 init (with_descriptors (tempo_only(''rms_db'' \<mapsto> PyInt 0)))
     = generate repr0 init (with_descriptors tempo_only)"
proof -
  have n: "tempo_only ''rms_db'' = None" by (simp add: tempo_only_def)
  have d: "(''rms_db'', PyInt 0) \<in> set field_defaults" by (simp add: field_defaults_def)
  from missing_field_default[OF descriptor_set_with_descriptors[OF samples_nonempty(7)] n d,
      of repr0 init]
  show ?thesis using n by (simp add: with_descriptors_def)
qed

text \<open>
  C9. \<open>generate\<close> is deterministic. It reads its argument only under the key
  \<open>extracted_features\<close> and has no other input (no clock, no random source, no attribute
  of the engine that it writes): two calls whose arguments agree under that key, identical
  arguments in particular, return the same list, byte for byte.
\<close>

theorem generate_reads_descriptors_only:
  assumes "features ''extracted_features'' = features' ''extracted_features''"
  shows "generate repr self features = generate repr self features'"
  using assms by (simp add: generate_def dict_get_def)

theorem generate_reads_descriptors_only_witness:
  "generate repr0 init ((with_descriptors good_mix)(''duration_seconds'' \<mapsto> PyFloat (Finite 5)))
     = generate repr0 init ((with_descriptors good_mix)(''duration_seconds'' \<mapsto> PyFloat (Finite 9)))
   \<and> (with_descriptors good_mix)(''duration_seconds'' \<mapsto> PyFloat (Finite 5))
     \<noteq> (with_descriptors good_mix)(''duration_seconds'' \<mapsto> PyFloat (Finite 9))"
proof -
  have "((with_descriptors good_mix)(''duration_seconds'' \<mapsto> PyFloat (Finite 5))) ''extracted_features''
      = ((with_descriptors good_mix)(''duration_seconds'' \<mapsto> PyFloat (Finite 9))) ''extracted_features''"
    by simp
  from generate_reads_descriptors_only[
      where features = "(with_descriptors good_mix)(''duration_seconds'' \<mapsto> PyFloat (Finite 5))"
        and features' = "(with_descriptors good_mix)(''duration_seconds'' \<mapsto> PyFloat (Finite 9))"
        and repr = repr0 and self = init, OF this]
  show ?thesis by (auto dest: map_upd_eqD1)
qed

text \<open>
  C10. The result does not depend on \<open>percussive_ratio\<close>: two non-empty DescriptorSets
  that agree on every other field give the same result, and so does any other value of the
  threshold \<open>percussive_ratio_high\<close>.
\<close>

theorem percussive_ratio_ignored:
  assumes "descriptor_set features e" and "descriptor_set features' e'"
    and "\<forall>k. k \<noteq> ''percussive_ratio'' \<longrightarrow> e' k = e k"
  shows "generate repr (self\<lparr>percussive_ratio_high := t\<rparr>) features' = generate repr self features"
proof -
  have th: "generate repr (self\<lparr>percussive_ratio_high := t\<rparr>) features'
            = generate repr self features'"
    unfolding generate_descriptor_set[OF assms(2)]
    by (simp add: loudness_def dynamic_range_def frequency_balance_def
        high_frequency_content_def harmonic_content_def cong del: if_weak_cong)
  have "generate repr self features' = generate repr self features"
  proof (rule generate_cong[OF assms(1,2)])
    fix k' d' assume "(k', d') \<in> set field_defaults" and "k' \<noteq> ''percussive_ratio''"
    then show "dict_get e' k' d' = dict_get e k' d'"
      using assms(3) by (simp add: dict_get_def)
  qed
  with th show ?thesis by simp
qed


theorem percussive_ratio_ignored_witness:
  "generate repr0 (init\<lparr>percussive_ratio_high := 1 / 10\<rparr>)
     (with_descriptors (good_mix(''percussive_ratio'' \<mapsto> PyFloat (Finite (9 / 10)))))
   = generate repr0 init (with_descriptors good_mix)"
proof -
  have a: "descriptor_set
      (with_descriptors (good_mix(''percussive_ratio'' \<mapsto> PyFloat (Finite (9 / 10)))))
      (good_mix(''percussive_ratio'' \<mapsto> PyFloat (Finite (9 / 10))))"
    by (rule descriptor_set_with_descriptors) simp
  have b: "\<forall>k. k \<noteq> ''percussive_ratio'' \<longrightarrow>
      (good_mix(''percussive_ratio'' \<mapsto> PyFloat (Finite (9 / 10)))) k = good_mix k"
    by simp
  show ?thesis
    using percussive_ratio_ignored[OF descriptor_set_with_descriptors[OF samples_nonempty(1)] a b]
    by simp
qed

end
